theory Spec2Isabelle
  imports Complex_Main "HOL-Library.Word"
begin

unbundle bit_operations_syntax

section \<open>Sensor and SDR command handlers of intel-ipmi-oem (sensorcommands.cpp)\<close>

text \<open>
  A shallow embedding of the handlers in \<^verbatim>\<open>src/sensorcommands.cpp\<close>. The process-wide
  variables of the file (\<^verbatim>\<open>sdrReservationID\<close>, \<^verbatim>\<open>sensorTree\<close>, \<^verbatim>\<open>SensorCache\<close>,
  \<^verbatim>\<open>updateTimeMap\<close>, \<^verbatim>\<open>thresholdDeassertMap\<close>) are the fields of one state record that
  every handler takes and returns. What the file calls but does not define (D-Bus, the
  helpers of sdrutils.hpp and sensorutils.hpp, the FRU storage commands) is a record of
  functions handed to the handlers; the constants and structure sizes of the missing
  headers are a second record.
\<close>

subsection \<open>Machine integers and completion codes\<close>

type_synonym u8 = "8 word"
type_synonym u16 = "16 word"
type_synonym i8 = "8 word"    \<comment> \<open>int8_t: read with \<open>sint\<close>\<close>
type_synonym i16 = "16 word"  \<comment> \<open>int16_t: read with \<open>sint\<close>\<close>
type_synonym ipmi_ret_t = u8

text \<open>The completion codes of the IPMI specification, as the host library names them.\<close>

definition IPMI_CC_OK :: ipmi_ret_t where
  "IPMI_CC_OK = 0x00"

definition IPMI_CC_INVALID_RESERVATION_ID :: ipmi_ret_t where
  "IPMI_CC_INVALID_RESERVATION_ID = 0xC5"

definition IPMI_CC_REQ_DATA_LEN_INVALID :: ipmi_ret_t where
  "IPMI_CC_REQ_DATA_LEN_INVALID = 0xC7"

definition IPMI_CC_INVALID_FIELD_REQUEST :: ipmi_ret_t where
  "IPMI_CC_INVALID_FIELD_REQUEST = 0xCC"

definition IPMI_CC_RESPONSE_ERROR :: ipmi_ret_t where
  "IPMI_CC_RESPONSE_ERROR = 0xCE"

text \<open>
  \<^verbatim>\<open>size_t\<close> arithmetic is unsigned and wraps; it is written out on \<open>nat\<close> modulo
  \<open>SIZE_T_MOD\<close>. Every use below is reduced modulo \<open>2 ^ 16\<close> or \<open>2 ^ 8\<close> afterwards or
  compared with a value below \<open>2 ^ 16\<close>, so a 32-bit \<^verbatim>\<open>size_t\<close> gives the same results.
\<close>

definition SIZE_T_MOD :: nat where
  "SIZE_T_MOD = 2 ^ 64"

definition size_t_sub :: "nat \<Rightarrow> nat \<Rightarrow> nat" where
  "size_t_sub a b = ((a mod SIZE_T_MOD) + SIZE_T_MOD - (b mod SIZE_T_MOD)) mod SIZE_T_MOD"

definition size_t_add :: "nat \<Rightarrow> nat \<Rightarrow> nat" where
  "size_t_add a b = (a + b) mod SIZE_T_MOD"

subsection \<open>D-Bus values and the process state\<close>

text \<open>
  A \<^verbatim>\<open>double\<close> is carried as the real number it denotes. The arithmetic the source does
  on doubles rounds; it is not computed on \<open>real\<close> but taken from the platform, with the
  other collaborators below.
\<close>

type_synonym double = real

datatype DbusVariant = VString string | VBool bool | VInteger int | VDouble double

type_synonym PropertyMap = "string \<rightharpoonup> DbusVariant"
type_synonym SensorMap = "string \<rightharpoonup> PropertyMap"
type_synonym ManagedObjectType = "string \<rightharpoonup> SensorMap"

text \<open>
  \<^verbatim>\<open>SensorSubTree\<close> is a flat map from object path to a flat map from connection to
  interface names. The handlers walk it by position, so it is the list of its entries in
  iteration order.
\<close>

type_synonym SensorSubTree = "(string \<times> (string \<times> string list) list) list"

text \<open>The calls a handler issues on the backend, in order.\<close>

datatype backend_call =
    ResolveSensor u8
  | GetManagedObjects string
  | SetDbusProperty string string string string double

text \<open>A time point of \<^verbatim>\<open>steady_clock\<close> is its tick count; a tick is a nanosecond.\<close>

type_synonym time_point = int

definition steady_clock_ticks_per_second :: int where
  "steady_clock_ticks_per_second = 1000000000"

definition duration_cast_seconds :: "int \<Rightarrow> int" where
  "duration_cast_seconds d = sgn d * (\<bar>d\<bar> div steady_clock_ticks_per_second)"

definition sensorMapUpdatePeriod :: int where
  "sensorMapUpdatePeriod = 2"

record ipmi_state =
  sdrReservationID :: u16
  sensorTree :: SensorSubTree
  SensorCache :: "string \<rightharpoonup> ManagedObjectType"
  updateTimeMap :: "string \<rightharpoonup> time_point"
  thresholdDeassertMap :: "string \<rightharpoonup> (string \<rightharpoonup> bool option)"
  backendLog :: "backend_call list"

subsection \<open>What the missing headers and the collaborators supply\<close>

text \<open>
  The SDR structures of the host library, with the fields that sensorcommands.cpp names.
  A structure's other bytes stay as \<^verbatim>\<open>= {0}\<close> left them and appear only in its memory
  image.
\<close>

record SensorDataRecordHeader =
  record_id_lsb :: u8
  record_id_msb :: u8
  sdr_version :: u8
  record_type :: u8
  record_length :: u8

record SensorDataRecordKey =
  owner_id :: u8
  owner_lun :: u8
  sensor_number :: u8

record SensorDataFullRecordBody =
  entity_id :: u8
  entity_instance :: u8
  sensor_capabilities :: u8
  sensor_type :: u8
  event_reading_type :: u8
  supported_assertions :: "u8 list"
  supported_deassertions :: "u8 list"
  discrete_reading_setting_mask :: "u8 list"
  sensor_units_1 :: u8
  sensor_units_2_base :: u8
  m_lsb :: u8
  m_msb_and_tolerance :: u8
  b_lsb :: u8
  b_msb_and_accuracy_lsb :: u8
  r_b_exponents :: u8
  upper_critical_threshold :: u8
  upper_noncritical_threshold :: u8
  lower_critical_threshold :: u8
  lower_noncritical_threshold :: u8
  id_string_info :: u8
  id_string :: string

record SensorDataFullRecord =
  header :: SensorDataRecordHeader
  key :: SensorDataRecordKey
  body :: SensorDataFullRecordBody

text \<open>An FRU record is filled by the storage commands; only its header is touched here.\<close>

record SensorDataFruRecord =
  fru_header :: SensorDataRecordHeader
  fru_key_and_body :: "u8 list"

text \<open>
  Constants, enumerators and structure sizes that sensorcommands.cpp uses and that are
  declared in headers outside the file (sensorcommands.hpp, sdrutils.hpp and the host
  library). They are parameters of the model.
\<close>

record header_constants =
  ipmiSdrVersion :: u8
  SENSOR_DATA_FULL_RECORD :: u8
  sizeof_SensorDataRecordHeader :: nat
  sizeof_SensorDataFullRecord :: nat
  sizeof_SensorDataFruRecord :: nat
  FULL_RECORD_ID_STR_MAX_LENGTH :: nat
  ReqEnable_setLowerNonCritical :: u8
  ReqEnable_setLowerCritical :: u8
  ReqEnable_setLowerNonRecoverable :: u8
  ReqEnable_setUpperNonCritical :: u8
  ReqEnable_setUpperCritical :: u8
  ReqEnable_setUpperNonRecoverable :: u8
  EventEnable_upperCriticalGoingHigh :: u8
  EventEnable_upperNonCriticalGoingHigh :: u8
  EventEnable_lowerCriticalGoingLow :: u8
  EventEnable_lowerNonCriticalGoingLow :: u8
  ReadingByte3_upperCritical :: u8
  ReadingByte3_upperNonCritical :: u8
  ReadingByte3_lowerCritical :: u8
  ReadingByte3_lowerNonCritical :: u8
  SensorUnits_degreesC :: u8
  SensorUnits_volts :: u8
  SensorUnits_amps :: u8
  SensorUnits_rpm :: u8
  SensorUnits_watts :: u8

text \<open>
  The functions sensorcommands.cpp calls and does not define, and the two inputs it reads
  from outside: the steady clock and the reply of the backend to GetManagedObjects
  (\<open>None\<close> when the call throws). \<open>getSensorAttributes\<close> is \<open>None\<close> when it returns
  false, otherwise \<open>(mValue, rExp, bValue, bExp, bSigned)\<close>. \<open>getSensorSubtree\<close> and
  \<open>getSensorConnection\<close> return the sensor tree they leave behind. The two
  \<open>bytesOf\<close> functions give the memory image of a structure, which the handler reads
  through \<^verbatim>\<open>reinterpret_cast<uint8_t *>\<close>. \<open>VariantToDoubleVisitor\<close> is taken to return a
  number for every variant, and setDbusProperty to return: an exception out of either is
  not modelled. \<open>double_add\<close>, \<open>double_mul\<close> and \<open>std_pow\<close> are \<^verbatim>\<open>+\<close>, \<^verbatim>\<open>*\<close> and
  \<^verbatim>\<open>std::pow\<close> on \<^verbatim>\<open>double\<close>, each with the rounding of the platform.
\<close>

record backend =
  steady_clock_now :: time_point
  dbusGetManagedObjects :: "string \<Rightarrow> ManagedObjectType option"
  VariantToDoubleVisitor :: "DbusVariant \<Rightarrow> double"
  getSensorSubtree :: "SensorSubTree \<Rightarrow> bool \<times> SensorSubTree"
  getSensorConnection :: "SensorSubTree \<Rightarrow> u8 \<Rightarrow> ipmi_ret_t \<times> string \<times> string \<times> SensorSubTree"
  getSensorAttributes :: "double \<Rightarrow> double \<Rightarrow> (i16 \<times> i8 \<times> i16 \<times> i8 \<times> bool) option"
  scaleIPMIValueFromDouble :: "double \<Rightarrow> i16 \<Rightarrow> i8 \<Rightarrow> i16 \<Rightarrow> i8 \<Rightarrow> bool \<Rightarrow> u8"
  getFruSdrCount :: "ipmi_ret_t \<times> nat"
  getFruSdrs :: "nat \<Rightarrow> ipmi_ret_t \<times> SensorDataFruRecord"
  getSensorTypeFromPath :: "string \<Rightarrow> u8"
  getSensorTypeStringFromPath :: "string \<Rightarrow> string"
  getSensorEventTypeFromPath :: "string \<Rightarrow> u8"
  bytesOfFullRecord :: "SensorDataFullRecord \<Rightarrow> u8 list"
  bytesOfFruRecord :: "SensorDataFruRecord \<Rightarrow> u8 list"
  double_add :: "double \<Rightarrow> double \<Rightarrow> double"
  double_mul :: "double \<Rightarrow> double \<Rightarrow> double"
  std_pow :: "double \<Rightarrow> double \<Rightarrow> double"

subsection \<open>The threshold watcher (thresholdChanged)\<close>

text \<open>The payload of a PropertiesChanged signal holds \<^verbatim>\<open>std::variant<bool, double>\<close> values.\<close>

datatype bool_or_double = VarBool bool | VarDouble double

text \<open>\<^verbatim>\<open>s.find(pat) != std::string::npos\<close>\<close>

fun string_contains :: "string \<Rightarrow> string \<Rightarrow> bool" where
  "string_contains [] pat = (pat = [])"
| "string_contains (c # cs) pat = (take (length pat) (c # cs) = pat \<or> string_contains cs pat)"

text \<open>
  \<^verbatim>\<open>thresholdDeassertMap[path][name]\<close>: the index operators insert a missing entry, the
  inner one with an empty optional, and the expression denotes the (possibly new) entry.
\<close>

definition deassertEntry :: "(string \<rightharpoonup> (string \<rightharpoonup> bool option)) \<Rightarrow> string \<Rightarrow> string \<Rightarrow> bool option" where
  "deassertEntry tdm path name =
     (case tdm path of None \<Rightarrow> None
      | Some inner \<Rightarrow> (case inner name of None \<Rightarrow> None | Some v \<Rightarrow> v))"

definition deassertTouch ::
  "(string \<rightharpoonup> (string \<rightharpoonup> bool option)) \<Rightarrow> string \<Rightarrow> string \<Rightarrow> (string \<rightharpoonup> (string \<rightharpoonup> bool option))" where
  "deassertTouch tdm path name =
     (let inner = (case tdm path of None \<Rightarrow> Map.empty | Some i \<Rightarrow> i);
          inner' = (case inner name of None \<Rightarrow> inner(name \<mapsto> None) | Some _ \<Rightarrow> inner)
      in tdm(path \<mapsto> inner'))"

definition deassertAssign ::
  "(string \<rightharpoonup> (string \<rightharpoonup> bool option)) \<Rightarrow> string \<Rightarrow> string \<Rightarrow> bool \<Rightarrow> (string \<rightharpoonup> (string \<rightharpoonup> bool option))" where
  "deassertAssign tdm path name b =
     (let inner = (case tdm path of None \<Rightarrow> Map.empty | Some i \<Rightarrow> i)
      in tdm(path \<mapsto> inner(name \<mapsto> Some b)))"

text \<open>
  A notification is the object path of the signal and the changed properties in the
  iteration order of the flat map they were read into.
\<close>

type_synonym notification = "string \<times> (string \<times> bool_or_double) list"

definition findAssert :: "(string \<times> bool_or_double) list \<Rightarrow> (string \<times> bool_or_double) option" where
  "findAssert values = find (\<lambda>pair. string_contains (fst pair) ''Alarm'') values"

definition thresholdChanged :: "notification \<Rightarrow> ipmi_state \<Rightarrow> ipmi_state" where
  "thresholdChanged m st =
     (case findAssert (snd m) of
        None \<Rightarrow> st
      | Some (name, v) \<Rightarrow>
          (case v of
             VarDouble _ \<Rightarrow> st
           | VarBool b \<Rightarrow>
               if b then
                 st\<lparr>thresholdDeassertMap := deassertAssign (thresholdDeassertMap st) (fst m) name b\<rparr>
               else
                 let tdm = deassertTouch (thresholdDeassertMap st) (fst m) name
                 in if deassertEntry tdm (fst m) name \<noteq> None
                    then st\<lparr>thresholdDeassertMap := deassertAssign tdm (fst m) name b\<rparr>
                    else st\<lparr>thresholdDeassertMap := tdm\<rparr>))"

text \<open>The watcher run over a sequence of notifications, oldest first.\<close>

fun processNotifications :: "notification list \<Rightarrow> ipmi_state \<Rightarrow> ipmi_state" where
  "processNotifications [] st = st"
| "processNotifications (m # ms) st = processNotifications ms (thresholdChanged m st)"

text \<open>A notification asserts the latch \<open>(path, name)\<close>: its Alarm property is that name, true.\<close>

definition assertsLatch :: "notification \<Rightarrow> string \<Rightarrow> string \<Rightarrow> bool" where
  "assertsLatch m path name = (fst m = path \<and> findAssert (snd m) = Some (name, VarBool True))"

subsection \<open>getSensorMaxMin and getSensorMap\<close>

definition getSensorMaxMin :: "backend \<Rightarrow> PropertyMap \<Rightarrow> double \<times> double" where
  "getSensorMaxMin be sensorPropertyMap =
     (let maxMap = sensorPropertyMap ''MaxValue'';
          minMap = sensorPropertyMap ''MinValue'';
          max_d = 127;
          min_d = -128;
          max_d = (case maxMap of None \<Rightarrow> max_d | Some v \<Rightarrow> VariantToDoubleVisitor be v);
          min_d = (case minMap of None \<Rightarrow> min_d | Some v \<Rightarrow> VariantToDoubleVisitor be v)
      in (max_d, min_d))"

text \<open>The tail of getSensorMap: the lookup in the cache.\<close>

definition sensorCacheLookup :: "string \<Rightarrow> string \<Rightarrow> ipmi_state \<Rightarrow> SensorMap option" where
  "sensorCacheLookup sensorConnection sensorPath st =
     (case SensorCache st sensorConnection of
        None \<Rightarrow> None
      | Some connection \<Rightarrow> connection sensorPath)"

text \<open>
  getSensorMap returns the sensor map (\<open>None\<close> where the source returns false) and the
  new state. A default-constructed time point is 0.
\<close>

definition getSensorMap ::
  "backend \<Rightarrow> string \<Rightarrow> string \<Rightarrow> ipmi_state \<Rightarrow> SensorMap option \<times> ipmi_state" where
  "getSensorMap be sensorConnection sensorPath st =
     (let lastUpdate = (case updateTimeMap st sensorConnection of None \<Rightarrow> 0 | Some t \<Rightarrow> t);
          now = steady_clock_now be
      in if duration_cast_seconds (now - lastUpdate) > sensorMapUpdatePeriod then
           let st1 = st\<lparr>updateTimeMap := (updateTimeMap st)(sensorConnection \<mapsto> now),
                        backendLog := backendLog st @ [GetManagedObjects sensorConnection]\<rparr>
           in (case dbusGetManagedObjects be sensorConnection of
                 None \<Rightarrow> (None, st1)
               | Some managedObjects \<Rightarrow>
                   let st2 = st1\<lparr>SensorCache := (SensorCache st1)(sensorConnection \<mapsto> managedObjects)\<rparr>
                   in (sensorCacheLookup sensorConnection sensorPath st2, st2))
         else (sensorCacheLookup sensorConnection sensorPath st, st))"

subsection \<open>ipmiSenSetSensorThresholds\<close>

record SensorThresholdReq =
  sensorNum :: u8
  req_mask :: u8
  lowerNonCritical :: u8
  lowerCritical :: u8
  lowerNonRecoverable :: u8
  upperNonCritical :: u8
  upperCritical :: u8
  upperNonRecoverable :: u8

text \<open>
  The verification block of the handler: the vector \<^verbatim>\<open>thresholdsToSet\<close> of (property
  name, raw value, interface), or \<open>None\<close> where the source returns
  \<^verbatim>\<open>IPMI_CC_INVALID_FIELD_REQUEST\<close>.
\<close>

definition verifyInterface ::
  "SensorMap \<Rightarrow> string \<Rightarrow> bool \<Rightarrow> string \<Rightarrow> u8 \<Rightarrow> bool \<Rightarrow> string \<Rightarrow> u8 \<Rightarrow>
   (string \<times> u8 \<times> string) list option" where
  "verifyInterface sensorMap interface setLower lowName lowValue setUpper highName highValue =
     (if setLower \<or> setUpper then
        (case sensorMap interface of
           None \<Rightarrow> None
         | Some findThreshold \<Rightarrow>
             if setLower \<and> findThreshold lowName = None then None
             else if setUpper \<and> findThreshold highName = None then None
             else Some ((if setLower then [(lowName, lowValue, interface)] else []) @
                        (if setUpper then [(highName, highValue, interface)] else [])))
      else Some [])"

definition thresholdsToSet ::
  "header_constants \<Rightarrow> SensorThresholdReq \<Rightarrow> SensorMap \<Rightarrow> (string \<times> u8 \<times> string) list option" where
  "thresholdsToSet hc req sensorMap =
     (let setLowerCritical = (req_mask req AND ReqEnable_setLowerCritical hc \<noteq> 0);
          setUpperCritical = (req_mask req AND ReqEnable_setUpperCritical hc \<noteq> 0);
          setLowerWarning = (req_mask req AND ReqEnable_setLowerNonCritical hc \<noteq> 0);
          setUpperWarning = (req_mask req AND ReqEnable_setUpperNonCritical hc \<noteq> 0)
      in case verifyInterface sensorMap ''xyz.openbmc_project.Sensor.Threshold.Critical''
                setLowerCritical ''CriticalLow'' (lowerCritical req)
                setUpperCritical ''CriticalHigh'' (upperCritical req) of
           None \<Rightarrow> None
         | Some critical \<Rightarrow>
             (case verifyInterface sensorMap ''xyz.openbmc_project.Sensor.Threshold.Warning''
                     setLowerWarning ''WarningLow'' (lowerNonCritical req)
                     setUpperWarning ''WarningHigh'' (upperNonCritical req) of
                None \<Rightarrow> None
              | Some warning \<Rightarrow> Some (critical @ warning)))"

text \<open>
  The value written for one entry of the vector (section 36.3 of the IPMI specification):
  \<^verbatim>\<open>mValue * threshold\<close> is a product of integers, exact in \<^verbatim>\<open>int\<close>; the sum, the two
  other products and the two powers are operations on \<^verbatim>\<open>double\<close>.
\<close>

definition valueToSet :: "backend \<Rightarrow> i16 \<Rightarrow> i8 \<Rightarrow> i16 \<Rightarrow> i8 \<Rightarrow> u8 \<Rightarrow> double" where
  "valueToSet be mValue rExp bValue bExp thresholdValue =
     double_mul be
       (double_add be
          (real_of_int (sint mValue * uint thresholdValue))
          (double_mul be (real_of_int (sint bValue))
             (std_pow be 10 (real_of_int (sint bExp)))))
       (std_pow be 10 (real_of_int (sint rExp)))"

text \<open>
  The handler returns the completion code and \<^verbatim>\<open>*dataLen\<close>. Each call of setDbusProperty
  is recorded in the log of backend calls, in the order of the vector. The handler is
  given in two parts: what it does once it holds the sensor map, and the checks and
  lookups before that.
\<close>

definition setThresholdsOnMap ::
  "header_constants \<Rightarrow> backend \<Rightarrow> SensorThresholdReq \<Rightarrow> string \<Rightarrow> string \<Rightarrow> SensorMap \<Rightarrow>
   ipmi_state \<Rightarrow> (ipmi_ret_t \<times> nat) \<times> ipmi_state" where
  "setThresholdsOnMap hc be req connection path sensorMap st =
     (case sensorMap ''xyz.openbmc_project.Sensor.Value'' of
        None \<Rightarrow> ((IPMI_CC_RESPONSE_ERROR, 0), st)
      | Some sensorObject \<Rightarrow>
          (case getSensorMaxMin be sensorObject of
             (max_d, min_d) \<Rightarrow>
               (case getSensorAttributes be max_d min_d of
                  None \<Rightarrow> ((IPMI_CC_RESPONSE_ERROR, 0), st)
                | Some (mValue, rExp, bValue, bExp, bSigned) \<Rightarrow>
                    (case thresholdsToSet hc req sensorMap of
                       None \<Rightarrow> ((IPMI_CC_INVALID_FIELD_REQUEST, 0), st)
                     | Some properties \<Rightarrow>
                         ((IPMI_CC_OK, 0),
                          st\<lparr>backendLog := backendLog st @
                             map (\<lambda>property.
                                    SetDbusProperty connection path
                                      (snd (snd property)) (fst property)
                                      (valueToSet be mValue rExp bValue bExp
                                         (fst (snd property))))
                                 properties\<rparr>)))))"

definition ipmiSenSetSensorThresholds ::
  "header_constants \<Rightarrow> backend \<Rightarrow> nat \<Rightarrow> SensorThresholdReq \<Rightarrow> ipmi_state \<Rightarrow>
   (ipmi_ret_t \<times> nat) \<times> ipmi_state" where
  "ipmiSenSetSensorThresholds hc be dataLen req st =
     (if dataLen \<noteq> 8 then ((IPMI_CC_REQ_DATA_LEN_INVALID, 0), st)
      else if req_mask req AND 0xC0 \<noteq> 0 then ((IPMI_CC_INVALID_FIELD_REQUEST, 0), st)
      else if req_mask req AND ReqEnable_setLowerNonRecoverable hc \<noteq> 0 \<or>
              req_mask req AND ReqEnable_setUpperNonRecoverable hc \<noteq> 0
        then ((IPMI_CC_INVALID_FIELD_REQUEST, 0), st)
      else if req_mask req = 0 then ((IPMI_CC_OK, 0), st)
      else
        case getSensorConnection be (sensorTree st) (sensorNum req) of
          (status, connection, path, tree) \<Rightarrow>
            let st1 = st\<lparr>sensorTree := tree,
                         backendLog := backendLog st @ [ResolveSensor (sensorNum req)]\<rparr>
            in if status \<noteq> 0 then ((status, 0), st1)
               else
                 (case getSensorMap be connection path st1 of
                    (None, st2) \<Rightarrow> ((IPMI_CC_RESPONSE_ERROR, 0), st2)
                  | (Some sensorMap, st2) \<Rightarrow>
                      setThresholdsOnMap hc be req connection path sensorMap st2))"

text \<open>
  Vocabulary for the properties of the handler: the thresholds a mask selects, whether
  the sensor map has the property behind a threshold, and the property writes in a log.
\<close>

datatype threshold_kind = LowerCritical | UpperCritical | LowerWarning | UpperWarning

fun selects :: "header_constants \<Rightarrow> u8 \<Rightarrow> threshold_kind \<Rightarrow> bool" where
  "selects hc m LowerCritical = (m AND ReqEnable_setLowerCritical hc \<noteq> 0)"
| "selects hc m UpperCritical = (m AND ReqEnable_setUpperCritical hc \<noteq> 0)"
| "selects hc m LowerWarning = (m AND ReqEnable_setLowerNonCritical hc \<noteq> 0)"
| "selects hc m UpperWarning = (m AND ReqEnable_setUpperNonCritical hc \<noteq> 0)"

fun thresholdInterface :: "threshold_kind \<Rightarrow> string" where
  "thresholdInterface LowerCritical = ''xyz.openbmc_project.Sensor.Threshold.Critical''"
| "thresholdInterface UpperCritical = ''xyz.openbmc_project.Sensor.Threshold.Critical''"
| "thresholdInterface LowerWarning = ''xyz.openbmc_project.Sensor.Threshold.Warning''"
| "thresholdInterface UpperWarning = ''xyz.openbmc_project.Sensor.Threshold.Warning''"

fun thresholdProperty :: "threshold_kind \<Rightarrow> string" where
  "thresholdProperty LowerCritical = ''CriticalLow''"
| "thresholdProperty UpperCritical = ''CriticalHigh''"
| "thresholdProperty LowerWarning = ''WarningLow''"
| "thresholdProperty UpperWarning = ''WarningHigh''"

definition lacksThreshold :: "SensorMap \<Rightarrow> threshold_kind \<Rightarrow> bool" where
  "lacksThreshold sensorMap k =
     (case sensorMap (thresholdInterface k) of
        None \<Rightarrow> True
      | Some props \<Rightarrow> props (thresholdProperty k) = None)"

fun isPropertyWrite :: "backend_call \<Rightarrow> bool" where
  "isPropertyWrite (SetDbusProperty c p i n v) = True"
| "isPropertyWrite (ResolveSensor n) = False"
| "isPropertyWrite (GetManagedObjects c) = False"

subsection \<open>getIPMIThresholds\<close>

record IPMIThresholds =
  warningLow :: "u8 option"
  warningHigh :: "u8 option"
  criticalLow :: "u8 option"
  criticalHigh :: "u8 option"

definition scaledProperty ::
  "backend \<Rightarrow> PropertyMap \<Rightarrow> string \<Rightarrow> i16 \<Rightarrow> i8 \<Rightarrow> i16 \<Rightarrow> i8 \<Rightarrow> bool \<Rightarrow> u8 option" where
  "scaledProperty be props name mValue rExp bValue bExp bSigned =
     (case props name of
        None \<Rightarrow> None
      | Some v \<Rightarrow> Some (scaleIPMIValueFromDouble be (VariantToDoubleVisitor be v)
                          mValue rExp bValue bExp bSigned))"

text \<open>\<open>None\<close> where the source throws \<^verbatim>\<open>std::runtime_error\<close>.\<close>

definition getIPMIThresholds :: "backend \<Rightarrow> SensorMap \<Rightarrow> IPMIThresholds option" where
  "getIPMIThresholds be sensorMap =
     (let resp = \<lparr>warningLow = None, warningHigh = None, criticalLow = None, criticalHigh = None\<rparr>;
          warningInterface = sensorMap ''xyz.openbmc_project.Sensor.Threshold.Warning'';
          criticalInterface = sensorMap ''xyz.openbmc_project.Sensor.Threshold.Critical''
      in if warningInterface \<noteq> None \<or> criticalInterface \<noteq> None then
           (case sensorMap ''xyz.openbmc_project.Sensor.Value'' of
              None \<Rightarrow> None
            | Some sensorPair \<Rightarrow>
                (case getSensorMaxMin be sensorPair of
                   (max_d, min_d) \<Rightarrow>
                     (case getSensorAttributes be max_d min_d of
                        None \<Rightarrow> None
                      | Some (mValue, rExp, bValue, bExp, bSigned) \<Rightarrow>
                          let resp = (case warningInterface of
                                 None \<Rightarrow> resp
                               | Some warningMap \<Rightarrow>
                                   resp\<lparr>warningHigh := scaledProperty be warningMap ''WarningHigh''
                                                           mValue rExp bValue bExp bSigned,
                                        warningLow := scaledProperty be warningMap ''WarningLow''
                                                           mValue rExp bValue bExp bSigned\<rparr>);
                              resp = (case criticalInterface of
                                 None \<Rightarrow> resp
                               | Some criticalMap \<Rightarrow>
                                   resp\<lparr>criticalHigh := scaledProperty be criticalMap ''CriticalHigh''
                                                           mValue rExp bValue bExp bSigned,
                                        criticalLow := scaledProperty be criticalMap ''CriticalLow''
                                                           mValue rExp bValue bExp bSigned\<rparr>)
                          in Some resp)))
         else Some resp)"

subsection \<open>ipmiStorageReserveSDR\<close>

text \<open>
  The handler takes the request length \<^verbatim>\<open>*dataLen\<close> and returns the completion code, the
  response length and the response bytes.
\<close>

definition ipmiStorageReserveSDR ::
  "nat \<Rightarrow> ipmi_state \<Rightarrow> (ipmi_ret_t \<times> nat \<times> u8 list) \<times> ipmi_state" where
  "ipmiStorageReserveSDR dataLen st =
     (if dataLen \<noteq> 0 then ((IPMI_CC_REQ_DATA_LEN_INVALID, 0, []), st)
      else
        let id1 = sdrReservationID st + 1;
            id2 = (if id1 = 0 then id1 + 1 else id1)
        in ((IPMI_CC_OK, 2, [ucast (id2 AND 0xFF), ucast (drop_bit 8 id2)]),
            st\<lparr>sdrReservationID := id2\<rparr>))"

text \<open>The reservation ID a client reads from the two response bytes (LS byte first).\<close>

definition reservationOfResponse :: "u8 list \<Rightarrow> u16" where
  "reservationOfResponse resp = ucast (resp ! 0) OR push_bit 8 (ucast (resp ! 1))"

subsection \<open>ipmiStorageGetSDR\<close>

text \<open>
  The handler answers with a completion code alone, or with success, the next record ID
  and the payload. The payload is copied from the memory image of a structure on the
  stack; a window that leaves the structure is undefined behaviour in the source and is
  a result of its own here, with the offset and the number of bytes read.
\<close>

datatype sdr_response =
    Response ipmi_ret_t
  | Success u16 "u8 list"
  | OutOfBoundsRead nat nat

text \<open>The units table \<^verbatim>\<open>sensorUnits\<close> of the file.\<close>

definition sensorUnits :: "header_constants \<Rightarrow> (string \<times> u8) list" where
  "sensorUnits hc =
     [(''temperature'', SensorUnits_degreesC hc),
      (''voltage'', SensorUnits_volts hc),
      (''current'', SensorUnits_amps hc),
      (''fan_tach'', SensorUnits_rpm hc),
      (''power'', SensorUnits_watts hc)]"

text \<open>
  The clamp of \<^verbatim>\<open>bytesToRead\<close>: \<^verbatim>\<open>offset + bytesToRead\<close> is computed in \<^verbatim>\<open>int\<close>, the
  difference in \<^verbatim>\<open>size_t\<close>, and the assignment narrows it to \<^verbatim>\<open>uint8_t\<close>.
\<close>

definition clampBytesToRead :: "nat \<Rightarrow> u8 \<Rightarrow> u8 \<Rightarrow> u8" where
  "clampBytesToRead recordSize offset bytesToRead =
     (if recordSize < unat offset + unat bytesToRead
      then of_nat (size_t_sub recordSize (unat offset))
      else bytesToRead)"

text \<open>
  \<^verbatim>\<open>std::vector<uint8_t> recordData(respStart, respStart + bytesToRead)\<close> over the image
  of a structure of the given size.
\<close>

definition readWindow :: "nat \<Rightarrow> u8 list \<Rightarrow> u8 \<Rightarrow> u8 \<Rightarrow> u16 \<Rightarrow> sdr_response" where
  "readWindow recordSize bytes offset bytesToRead nextRecordId =
     (if unat offset + unat bytesToRead \<le> recordSize
      then Success nextRecordId (take (unat bytesToRead) (drop (unat offset) bytes))
      else OutOfBoundsRead (unat offset) (unat bytesToRead))"

text \<open>\<^verbatim>\<open>recordID << 8\<close> narrowed to a byte: the shift is done in \<^verbatim>\<open>int\<close>.\<close>

definition recordIdMsb :: "u16 \<Rightarrow> u8" where
  "recordIdMsb recordID = ucast (push_bit 8 (ucast recordID :: 32 word))"

definition recordIdLsb :: "u16 \<Rightarrow> u8" where
  "recordIdLsb recordID = ucast (recordID AND 0xFF)"

text \<open>The branch for an FRU record.\<close>

definition sdrFruRecord ::
  "header_constants \<Rightarrow> backend \<Rightarrow> nat \<Rightarrow> nat \<Rightarrow> u16 \<Rightarrow> u16 \<Rightarrow> u8 \<Rightarrow> u8 \<Rightarrow> sdr_response" where
  "sdrFruRecord hc be sensorCount fruCount recordID nextRecordId offset bytesToRead =
     (let fruIndex = size_t_sub (unat recordID) sensorCount
      in if fruIndex \<ge> fruCount then Response IPMI_CC_INVALID_FIELD_REQUEST
         else if unat offset > sizeof_SensorDataFruRecord hc
           then Response IPMI_CC_INVALID_FIELD_REQUEST
         else
           (case getFruSdrs be fruIndex of
              (ret, data) \<Rightarrow>
                if ret \<noteq> IPMI_CC_OK then Response ret
                else
                  let data = data\<lparr>fru_header := (fru_header data)
                                 \<lparr>record_id_msb := recordIdMsb recordID,
                                  record_id_lsb := recordIdLsb recordID\<rparr>\<rparr>;
                      bytesToRead = clampBytesToRead (sizeof_SensorDataFruRecord hc) offset bytesToRead
                  in readWindow (sizeof_SensorDataFruRecord hc) (bytesOfFruRecord be data)
                       offset bytesToRead nextRecordId))"

text \<open>
  The loop over the sensor tree: \<open>None\<close> where it returns a response error, otherwise
  the connection and the path, both empty when no entry is reached.
\<close>

fun sdrFindSensor :: "SensorSubTree \<Rightarrow> u16 \<Rightarrow> (string \<times> string) option" where
  "sdrFindSensor [] sensorIndex = Some ([], [])"
| "sdrFindSensor (sensor # rest) sensorIndex =
     (if sensorIndex = 0 then
        (case snd sensor of [] \<Rightarrow> None | c # cs \<Rightarrow> Some (fst c, fst sensor))
      else sdrFindSensor rest (sensorIndex - 1))"

text \<open>The range the SDR assembler uses for a sensor, from its value interface.\<close>

definition sdrSensorMaxMin :: "backend \<Rightarrow> PropertyMap \<Rightarrow> double \<times> double" where
  "sdrSensorMaxMin be sensorObject =
     (let maxObject = sensorObject ''MaxValue'';
          minObject = sensorObject ''MinValue'';
          max_d = 128;
          min_d = -127;
          max_d = (case maxObject of None \<Rightarrow> max_d | Some v \<Rightarrow> VariantToDoubleVisitor be v);
          min_d = (case minObject of None \<Rightarrow> min_d | Some v \<Rightarrow> VariantToDoubleVisitor be v)
      in (max_d, min_d))"

text \<open>A 10-bit value as its LS byte and the byte with its bit 8 and its sign.\<close>

definition lsbOf :: "i16 \<Rightarrow> u8" where
  "lsbOf v = ucast (v AND 0xFF)"

definition msbOf :: "i16 \<Rightarrow> u8" where
  "msbOf v =
     (let msb = (if v AND push_bit 8 1 \<noteq> 0 then push_bit 6 1 else 0);
          msb = (if sint v < 0 then msb OR push_bit 7 1 else msb)
      in msb)"

text \<open>The four statements that write \<^verbatim>\<open>record.body.r_b_exponents\<close>, in their order.\<close>

definition packExponents :: "i8 \<Rightarrow> i8 \<Rightarrow> u8" where
  "packExponents bExp rExp =
     (let r_b = bExp AND 0x7;
          r_b = (if sint bExp < 0 then r_b OR push_bit 3 1 else r_b);
          r_b = push_bit 4 (rExp AND 0x7);
          r_b = (if sint rExp < 0 then r_b OR push_bit 7 1 else r_b)
      in r_b)"

text \<open>The sensor name: the last path segment, underscores replaced, cut to the field.\<close>

definition sdrSensorName :: "header_constants \<Rightarrow> string \<Rightarrow> string" where
  "sdrSensorName hc path =
     (let name = (if CHR ''/'' \<in> set path
                  then rev (takeWhile (\<lambda>c. c \<noteq> CHR ''/'') (rev path)) else []);
          name = map (\<lambda>c. if c = CHR ''_'' then CHR '' '' else c) name;
          name = (if length name > FULL_RECORD_ID_STR_MAX_LENGTH hc
                  then take (FULL_RECORD_ID_STR_MAX_LENGTH hc) name else name)
      in name)"

text \<open>\<^verbatim>\<open>std::strncpy\<close> into a field of \<open>n\<close> characters: copy up to a NUL, pad with NUL.\<close>

definition strncpy :: "string \<Rightarrow> nat \<Rightarrow> string" where
  "strncpy src n =
     (let s = takeWhile (\<lambda>c. c \<noteq> CHR 0x00) src
      in take n (s @ replicate n (CHR 0x00)))"

definition orAt :: "u8 list \<Rightarrow> nat \<Rightarrow> u8 \<Rightarrow> u8 list" where
  "orAt xs i v = xs[i := xs ! i OR v]"

text \<open>The threshold bytes and the supported-event bits of the record body.\<close>

definition sdrApplyThresholds ::
  "header_constants \<Rightarrow> IPMIThresholds \<Rightarrow> SensorDataFullRecordBody \<Rightarrow> SensorDataFullRecordBody" where
  "sdrApplyThresholds hc thresholdData b =
     (let b = (case criticalHigh thresholdData of
                 None \<Rightarrow> b
               | Some v \<Rightarrow> b\<lparr>upper_critical_threshold := v,
                   supported_deassertions :=
                     orAt (supported_deassertions b) 1 (EventEnable_upperCriticalGoingHigh hc),
                   supported_assertions :=
                     orAt (supported_assertions b) 1 (EventEnable_upperCriticalGoingHigh hc),
                   discrete_reading_setting_mask :=
                     orAt (discrete_reading_setting_mask b) 0 (ReadingByte3_upperCritical hc)\<rparr>);
          b = (case warningHigh thresholdData of
                 None \<Rightarrow> b
               | Some v \<Rightarrow> b\<lparr>upper_noncritical_threshold := v,
                   supported_deassertions :=
                     orAt (supported_deassertions b) 0 (EventEnable_upperNonCriticalGoingHigh hc),
                   supported_assertions :=
                     orAt (supported_assertions b) 0 (EventEnable_upperNonCriticalGoingHigh hc),
                   discrete_reading_setting_mask :=
                     orAt (discrete_reading_setting_mask b) 0 (ReadingByte3_upperNonCritical hc)\<rparr>);
          b = (case criticalLow thresholdData of
                 None \<Rightarrow> b
               | Some v \<Rightarrow> b\<lparr>lower_critical_threshold := v,
                   supported_deassertions :=
                     orAt (supported_deassertions b) 0 (EventEnable_lowerCriticalGoingLow hc),
                   supported_assertions :=
                     orAt (supported_assertions b) 0 (EventEnable_lowerCriticalGoingLow hc),
                   discrete_reading_setting_mask :=
                     orAt (discrete_reading_setting_mask b) 0 (ReadingByte3_lowerCritical hc)\<rparr>);
          b = (case warningLow thresholdData of
                 None \<Rightarrow> b
               | Some v \<Rightarrow> b\<lparr>lower_noncritical_threshold := v,
                   supported_deassertions :=
                     orAt (supported_deassertions b) 0 (EventEnable_lowerNonCriticalGoingLow hc),
                   supported_assertions :=
                     orAt (supported_assertions b) 0 (EventEnable_lowerNonCriticalGoingLow hc),
                   discrete_reading_setting_mask :=
                     orAt (discrete_reading_setting_mask b) 0 (ReadingByte3_lowerNonCritical hc)\<rparr>)
      in b\<lparr>discrete_reading_setting_mask :=
             (discrete_reading_setting_mask b)[1 := discrete_reading_setting_mask b ! 0]\<rparr>)"

text \<open>\<^verbatim>\<open>get_sdr::SensorDataFullRecord record = {0}\<close>\<close>

definition zeroFullRecord :: "header_constants \<Rightarrow> SensorDataFullRecord" where
  "zeroFullRecord hc =
     \<lparr>header = \<lparr>record_id_lsb = 0, record_id_msb = 0, sdr_version = 0, record_type = 0,
                record_length = 0\<rparr>,
      key = \<lparr>owner_id = 0, owner_lun = 0, sensor_number = 0\<rparr>,
      body = \<lparr>entity_id = 0, entity_instance = 0, sensor_capabilities = 0, sensor_type = 0,
              event_reading_type = 0, supported_assertions = [0, 0],
              supported_deassertions = [0, 0], discrete_reading_setting_mask = [0, 0],
              sensor_units_1 = 0, sensor_units_2_base = 0, m_lsb = 0, m_msb_and_tolerance = 0,
              b_lsb = 0, b_msb_and_accuracy_lsb = 0, r_b_exponents = 0,
              upper_critical_threshold = 0, upper_noncritical_threshold = 0,
              lower_critical_threshold = 0, lower_noncritical_threshold = 0,
              id_string_info = 0,
              id_string = replicate (FULL_RECORD_ID_STR_MAX_LENGTH hc) (CHR 0x00)\<rparr>\<rparr>"

text \<open>The header, the key and the fixed body fields of a live-sensor record.\<close>

definition sdrRecordIdentity ::
  "header_constants \<Rightarrow> backend \<Rightarrow> u16 \<Rightarrow> string \<Rightarrow> SensorDataFullRecord" where
  "sdrRecordIdentity hc be recordID path =
     (let sensornumber = ucast (recordID AND 0xFF);
          record = zeroFullRecord hc;
          h = (header record)\<lparr>record_id_msb := recordIdMsb recordID,
                 record_id_lsb := recordIdLsb recordID,
                 sdr_version := ipmiSdrVersion hc,
                 record_type := SENSOR_DATA_FULL_RECORD hc,
                 record_length := of_nat (size_t_sub (sizeof_SensorDataFullRecord hc)
                                            (sizeof_SensorDataRecordHeader hc))\<rparr>;
          k = (key record)\<lparr>owner_id := 0x20, owner_lun := 0x0, sensor_number := sensornumber\<rparr>;
          b = (body record)\<lparr>entity_id := 0x0, entity_instance := 0x01,
                 sensor_capabilities := 0x68,
                 sensor_type := getSensorTypeFromPath be path\<rparr>;
          b = (case map_of (sensorUnits hc) (getSensorTypeStringFromPath be path) of
                 None \<Rightarrow> b
               | Some units \<Rightarrow> b\<lparr>sensor_units_2_base := units\<rparr>);
          b = b\<lparr>event_reading_type := getSensorEventTypeFromPath be path\<rparr>
      in record\<lparr>header := h, key := k, body := b\<rparr>)"

text \<open>
  The record of a live sensor, assembled from its path and its sensor map; \<open>None\<close>
  where the source returns a response error.
\<close>

definition sdrAssembleRecord ::
  "header_constants \<Rightarrow> backend \<Rightarrow> u16 \<Rightarrow> string \<Rightarrow> SensorMap \<Rightarrow> SensorDataFullRecord option" where
  "sdrAssembleRecord hc be recordID path sensorMap =
     (let record = sdrRecordIdentity hc be recordID path
      in case sensorMap ''xyz.openbmc_project.Sensor.Value'' of
           None \<Rightarrow> None
         | Some sensorObject \<Rightarrow>
             (case sdrSensorMaxMin be sensorObject of
                (max_d, min_d) \<Rightarrow>
                  (case getSensorAttributes be max_d min_d of
                     None \<Rightarrow> None
                   | Some (mValue, rExp, bValue, bExp, bSigned) \<Rightarrow>
                       let b = (body record)\<lparr>m_lsb := lsbOf mValue,
                                  m_msb_and_tolerance := msbOf mValue,
                                  b_lsb := lsbOf bValue,
                                  b_msb_and_accuracy_lsb := msbOf bValue,
                                  r_b_exponents := packExponents bExp rExp\<rparr>;
                           b = (if bSigned then b\<lparr>sensor_units_1 := push_bit 7 1\<rparr> else b);
                           name = sdrSensorName hc path;
                           b = b\<lparr>id_string_info := of_nat (length name),
                                 id_string := strncpy name (FULL_RECORD_ID_STR_MAX_LENGTH hc)\<rparr>
                       in (case getIPMIThresholds be sensorMap of
                             None \<Rightarrow> None
                           | Some thresholdData \<Rightarrow>
                               Some (record\<lparr>body := sdrApplyThresholds hc thresholdData b\<rparr>)))))"

text \<open>The branch for a live sensor, from the loop over the sensor tree to the window.\<close>

definition sdrFullRecord ::
  "header_constants \<Rightarrow> backend \<Rightarrow> u16 \<Rightarrow> u16 \<Rightarrow> u8 \<Rightarrow> u8 \<Rightarrow> ipmi_state \<Rightarrow>
   sdr_response \<times> ipmi_state" where
  "sdrFullRecord hc be recordID nextRecordId offset bytesToRead st =
     (case sdrFindSensor (sensorTree st) recordID of
        None \<Rightarrow> (Response IPMI_CC_RESPONSE_ERROR, st)
      | Some (connection, path) \<Rightarrow>
          (case getSensorMap be connection path st of
             (None, st1) \<Rightarrow> (Response IPMI_CC_RESPONSE_ERROR, st1)
           | (Some sensorMap, st1) \<Rightarrow>
               (case sdrAssembleRecord hc be recordID path sensorMap of
                  None \<Rightarrow> (Response IPMI_CC_RESPONSE_ERROR, st1)
                | Some record \<Rightarrow>
                    let bytesToRead = clampBytesToRead
                          (sizeof_SensorDataFullRecord hc) offset bytesToRead
                    in (readWindow (sizeof_SensorDataFullRecord hc)
                          (bytesOfFullRecord be record) offset bytesToRead
                          nextRecordId, st1))))"

text \<open>
  The sensor tree after \<^verbatim>\<open>sensorTree.empty() && !getSensorSubtree(sensorTree)\<close>, and
  whether the condition was false.
\<close>

definition loadSensorTree :: "backend \<Rightarrow> ipmi_state \<Rightarrow> bool \<times> ipmi_state" where
  "loadSensorTree be st =
     (if sensorTree st = [] then
        (case getSensorSubtree be (sensorTree st) of
           (ok, tree) \<Rightarrow> (ok, st\<lparr>sensorTree := tree\<rparr>))
      else (True, st))"

text \<open>\<^verbatim>\<open>size_t lastRecord = sensorTree.size() + fruCount - 1\<close>\<close>

definition lastRecordOf :: "nat \<Rightarrow> nat \<Rightarrow> nat" where
  "lastRecordOf sensorCount fruCount = size_t_sub (size_t_add sensorCount fruCount) 1"

text \<open>
  The handler from the computation of \<^verbatim>\<open>lastRecord\<close> on, given the loaded state and
  the FRU count; and the whole handler.
\<close>

text \<open>\<^verbatim>\<open>if (recordID == lastRecordIndex) recordID = lastRecord\<close>, narrowed to 16 bits.\<close>

definition resolveRecordID :: "nat \<Rightarrow> u16 \<Rightarrow> u16" where
  "resolveRecordID lastRecord recordID =
     (if recordID = 0xFFFF then of_nat lastRecord else recordID)"

definition getSDRRecord ::
  "header_constants \<Rightarrow> backend \<Rightarrow> nat \<Rightarrow> u16 \<Rightarrow> u8 \<Rightarrow> u8 \<Rightarrow> ipmi_state \<Rightarrow>
   sdr_response \<times> ipmi_state" where
  "getSDRRecord hc be fruCount recordID offset bytesToRead st =
     (let lastRecord = lastRecordOf (length (sensorTree st)) fruCount;
          recordID = resolveRecordID lastRecord recordID
      in if unat recordID > lastRecord
         then (Response IPMI_CC_INVALID_FIELD_REQUEST, st)
         else
           let nextRecordId = (if lastRecord > unat recordID then recordID + 1 else 0xFFFF)
           in if unat recordID \<ge> length (sensorTree st)
              then (sdrFruRecord hc be (length (sensorTree st)) fruCount
                      recordID nextRecordId offset bytesToRead, st)
              else sdrFullRecord hc be recordID nextRecordId offset bytesToRead st)"

definition ipmiStorageGetSDR ::
  "header_constants \<Rightarrow> backend \<Rightarrow> u16 \<Rightarrow> u16 \<Rightarrow> u8 \<Rightarrow> u8 \<Rightarrow> ipmi_state \<Rightarrow>
   sdr_response \<times> ipmi_state" where
  "ipmiStorageGetSDR hc be reservationID recordID offset bytesToRead st =
     (if (sdrReservationID st = 0 \<or> reservationID \<noteq> sdrReservationID st) \<and> offset \<noteq> 0
      then (Response IPMI_CC_INVALID_RESERVATION_ID, st)
      else
        (case loadSensorTree be st of
           (ok, st1) \<Rightarrow>
             if \<not> ok then (Response IPMI_CC_RESPONSE_ERROR, st1)
             else
               (case getFruSdrCount be of
                  (ret, fruCount) \<Rightarrow>
                    if ret \<noteq> IPMI_CC_OK then (Response ret, st1)
                    else getSDRRecord hc be (fruCount mod SIZE_T_MOD) recordID offset
                           bytesToRead st1)))"

subsection \<open>A sample platform\<close>

text \<open>
  One instance of the parameters, on which the model is run: the enumerators at the bit
  positions of the IPMI specification, a full record of 64 bytes and, as a sample size, a
  FRU record of 16 bytes, one temperature sensor served by one connection, and two FRU
  records. The sensor has no MaxValue and no MinValue, a critical
  interface with an upper threshold only, and no warning interface. The sample arithmetic
  on doubles is exact.
\<close>

definition sample_constants :: header_constants where
  "sample_constants =
     \<lparr>ipmiSdrVersion = 0x51, SENSOR_DATA_FULL_RECORD = 0x01,
      sizeof_SensorDataRecordHeader = 5, sizeof_SensorDataFullRecord = 64,
      sizeof_SensorDataFruRecord = 16, FULL_RECORD_ID_STR_MAX_LENGTH = 16,
      ReqEnable_setLowerNonCritical = 0x01, ReqEnable_setLowerCritical = 0x02,
      ReqEnable_setLowerNonRecoverable = 0x04, ReqEnable_setUpperNonCritical = 0x08,
      ReqEnable_setUpperCritical = 0x10, ReqEnable_setUpperNonRecoverable = 0x20,
      EventEnable_upperCriticalGoingHigh = 0x02, EventEnable_upperNonCriticalGoingHigh = 0x80,
      EventEnable_lowerCriticalGoingLow = 0x04, EventEnable_lowerNonCriticalGoingLow = 0x01,
      ReadingByte3_upperCritical = 0x10, ReadingByte3_upperNonCritical = 0x08,
      ReadingByte3_lowerCritical = 0x02, ReadingByte3_lowerNonCritical = 0x01,
      SensorUnits_degreesC = 0x01, SensorUnits_volts = 0x04, SensorUnits_amps = 0x05,
      SensorUnits_rpm = 0x12, SensorUnits_watts = 0x06\<rparr>"

definition sample_path :: string where
  "sample_path = ''/sensors/temperature/cpu_0''"

definition sample_connection :: string where
  "sample_connection = ''svc''"

definition sample_tree :: SensorSubTree where
  "sample_tree = [(sample_path, [(sample_connection, [''xyz.openbmc_project.Sensor.Value''])])]"

definition sample_sensorMap :: SensorMap where
  "sample_sensorMap =
     [''xyz.openbmc_project.Sensor.Value'' \<mapsto> [''Value'' \<mapsto> VDouble 42],
      ''xyz.openbmc_project.Sensor.Threshold.Critical'' \<mapsto> [''CriticalHigh'' \<mapsto> VDouble 90]]"

definition sample_objects :: ManagedObjectType where
  "sample_objects = [sample_path \<mapsto> sample_sensorMap]"

definition sample_fullRecordBytes :: "SensorDataFullRecord \<Rightarrow> u8 list" where
  "sample_fullRecordBytes r =
     [record_id_lsb (header r), record_id_msb (header r), sdr_version (header r),
      record_type (header r), record_length (header r),
      owner_id (key r), owner_lun (key r), sensor_number (key r),
      entity_id (body r), entity_instance (body r), 0, sensor_capabilities (body r),
      sensor_type (body r), event_reading_type (body r),
      supported_assertions (body r) ! 0, supported_assertions (body r) ! 1,
      supported_deassertions (body r) ! 0, supported_deassertions (body r) ! 1,
      discrete_reading_setting_mask (body r) ! 0, discrete_reading_setting_mask (body r) ! 1,
      sensor_units_1 (body r), sensor_units_2_base (body r), 0, 0,
      m_lsb (body r), m_msb_and_tolerance (body r), b_lsb (body r),
      b_msb_and_accuracy_lsb (body r), 0, r_b_exponents (body r), 0,
      0, 0, 0, 0, 0,
      0, upper_critical_threshold (body r), upper_noncritical_threshold (body r),
      0, lower_critical_threshold (body r), lower_noncritical_threshold (body r),
      0, 0, 0, 0, 0, id_string_info (body r)]
     @ map of_char (id_string (body r))"

definition sample_fruRecordBytes :: "SensorDataFruRecord \<Rightarrow> u8 list" where
  "sample_fruRecordBytes d =
     [record_id_lsb (fru_header d), record_id_msb (fru_header d), sdr_version (fru_header d),
      record_type (fru_header d), record_length (fru_header d)] @ fru_key_and_body d"

definition sample_fruRecord :: "nat \<Rightarrow> SensorDataFruRecord" where
  "sample_fruRecord fruIndex =
     \<lparr>fru_header = \<lparr>record_id_lsb = 0, record_id_msb = 0, sdr_version = 0x51,
                     record_type = 0x11, record_length = 11\<rparr>,
      fru_key_and_body = [of_nat fruIndex, 1, 2, 3, 4, 5, 6, 7, 8, 9, 10]\<rparr>"

definition sample_variantToDouble :: "DbusVariant \<Rightarrow> double" where
  "sample_variantToDouble v =
     (case v of VDouble d \<Rightarrow> d | VInteger i \<Rightarrow> real_of_int i | VBool b \<Rightarrow> 0 | VString s \<Rightarrow> 0)"

definition sample_getSensorAttributes ::
  "double \<Rightarrow> double \<Rightarrow> (i16 \<times> i8 \<times> i16 \<times> i8 \<times> bool) option" where
  "sample_getSensorAttributes max_d min_d =
     (if max_d \<le> min_d then None else Some (1, - 2, of_int \<lfloor>max_d\<rfloor>, 3, min_d < 0))"

definition sample_getSensorConnection ::
  "SensorSubTree \<Rightarrow> u8 \<Rightarrow> ipmi_ret_t \<times> string \<times> string \<times> SensorSubTree" where
  "sample_getSensorConnection tree sensnum =
     (if sensnum = 0 then (0, sample_connection, sample_path, sample_tree)
      else (IPMI_CC_INVALID_FIELD_REQUEST, [], [], sample_tree))"

definition sample_getManagedObjects :: "string \<Rightarrow> ManagedObjectType option" where
  "sample_getManagedObjects c = (if c = sample_connection then Some sample_objects else None)"

definition sample_scale :: "double \<Rightarrow> i16 \<Rightarrow> i8 \<Rightarrow> i16 \<Rightarrow> i8 \<Rightarrow> bool \<Rightarrow> u8" where
  "sample_scale v mValue rExp bValue bExp bSigned = of_int \<lfloor>v\<rfloor>"

definition sample_getSensorSubtree :: "SensorSubTree \<Rightarrow> bool \<times> SensorSubTree" where
  "sample_getSensorSubtree tree = (True, sample_tree)"

definition sample_typeOfPath :: "string \<Rightarrow> u8" where
  "sample_typeOfPath p = 0x01"

definition sample_typeStringOfPath :: "string \<Rightarrow> string" where
  "sample_typeStringOfPath p = ''temperature''"

definition sample_backend :: backend where
  "sample_backend =
     \<lparr>steady_clock_now = 10000000000,
      dbusGetManagedObjects = sample_getManagedObjects,
      VariantToDoubleVisitor = sample_variantToDouble,
      getSensorSubtree = sample_getSensorSubtree,
      getSensorConnection = sample_getSensorConnection,
      getSensorAttributes = sample_getSensorAttributes,
      scaleIPMIValueFromDouble = sample_scale,
      getFruSdrCount = (IPMI_CC_OK, 2),
      getFruSdrs = (\<lambda>fruIndex. (IPMI_CC_OK, sample_fruRecord fruIndex)),
      getSensorTypeFromPath = sample_typeOfPath,
      getSensorTypeStringFromPath = sample_typeStringOfPath,
      getSensorEventTypeFromPath = sample_typeOfPath,
      bytesOfFullRecord = sample_fullRecordBytes,
      bytesOfFruRecord = sample_fruRecordBytes,
      double_add = (+),
      double_mul = (*),
      std_pow = (\<lambda>x y. power_int x \<lfloor>y\<rfloor>)\<rparr>"

text \<open>The record assembled for the sample sensor, as record 0.\<close>

definition sample_record :: SensorDataFullRecord where
  "sample_record =
     \<lparr>header = \<lparr>record_id_lsb = 0, record_id_msb = 0, sdr_version = 0x51, record_type = 0x01,
                record_length = 59\<rparr>,
      key = \<lparr>owner_id = 0x20, owner_lun = 0, sensor_number = 0\<rparr>,
      body = \<lparr>entity_id = 0, entity_instance = 1, sensor_capabilities = 0x68, sensor_type = 1,
              event_reading_type = 1, supported_assertions = [0, 0x02],
              supported_deassertions = [0, 0x02], discrete_reading_setting_mask = [0x10, 0x10],
              sensor_units_1 = 0x80, sensor_units_2_base = 1, m_lsb = 1, m_msb_and_tolerance = 0,
              b_lsb = 128, b_msb_and_accuracy_lsb = 0, r_b_exponents = 0xE0,
              upper_critical_threshold = 90, upper_noncritical_threshold = 0,
              lower_critical_threshold = 0, lower_noncritical_threshold = 0,
              id_string_info = 5,
              id_string = ''cpu 0'' @ replicate 11 (CHR 0x00)\<rparr>\<rparr>"

text \<open>The same backend when GetManagedObjects throws.\<close>

definition failing_backend :: backend where
  "failing_backend = sample_backend\<lparr>dbusGetManagedObjects := (\<lambda>c. None)\<rparr>"

text \<open>The same backend when the sensor has warning thresholds and no value interface.\<close>

definition valueless_sensorMap :: SensorMap where
  "valueless_sensorMap =
     [''xyz.openbmc_project.Sensor.Threshold.Warning'' \<mapsto> [''WarningHigh'' \<mapsto> VDouble 80]]"

definition valueless_backend :: backend where
  "valueless_backend =
     sample_backend\<lparr>dbusGetManagedObjects := (\<lambda>c. Some [sample_path \<mapsto> valueless_sensorMap])\<rparr>"

text \<open>The same backend with no FRU record: the last record is the one of the sample sensor.\<close>

definition sensor_only_backend :: backend where
  "sensor_only_backend = sample_backend\<lparr>getFruSdrCount := (IPMI_CC_OK, 0)\<rparr>"

text \<open>The state after start-up, with the sensor tree loaded; and with one reservation.\<close>

definition sample_state :: ipmi_state where
  "sample_state =
     \<lparr>sdrReservationID = 0, sensorTree = sample_tree, SensorCache = Map.empty,
      updateTimeMap = Map.empty, thresholdDeassertMap = Map.empty, backendLog = []\<rparr>"

definition reserved_state :: ipmi_state where
  "reserved_state = sample_state\<lparr>sdrReservationID := 1\<rparr>"

text \<open>
  The state one second after a successful refresh of the sample connection; the clock of
  the sample backends reads ten seconds.
\<close>

definition stale_state :: ipmi_state where
  "stale_state =
     sample_state\<lparr>SensorCache := [sample_connection \<mapsto> sample_objects],
                  updateTimeMap := [sample_connection \<mapsto> 1000000000]\<rparr>"

text \<open>Notifications that the upper critical alarm of the sample sensor went on, and off.\<close>

definition assert_notification :: notification where
  "assert_notification = (sample_path, [(''CriticalAlarmHigh'', VarBool True)])"

definition deassert_notification :: notification where
  "deassert_notification = (sample_path, [(''CriticalAlarmHigh'', VarBool False)])"

text \<open>A request for the sample sensor with the given mask.\<close>

definition sample_request :: "u8 \<Rightarrow> SensorThresholdReq" where
  "sample_request m =
     \<lparr>sensorNum = 0, req_mask = m, lowerNonCritical = 10, lowerCritical = 5,
      lowerNonRecoverable = 0, upperNonCritical = 80, upperCritical = 90,
      upperNonRecoverable = 0\<rparr>"

section \<open>Properties\<close>

subsection \<open>Words and \<^verbatim>\<open>size_t\<close> arithmetic\<close>

lemma u16_low_byte_mask: "(0xFF :: u16) = mask 8"
  by (simp add: mask_eq_exp_minus_1)

lemma reserve_byte_roundtrip:
  "(ucast (ucast (w AND 0xFF :: u16) :: u8) :: u16) OR
     push_bit 8 (ucast (ucast (drop_bit 8 w :: u16) :: u8)) = w"
  unfolding u16_low_byte_mask
  by (rule bit_word_eqI) (auto simp: bit_simps)

lemma u8_masks: "(0x7 :: u8) = mask 3" "(0x0F :: u8) = mask 4"
  by (simp_all add: mask_eq_exp_minus_1)

lemma pack_low_nibble: "push_bit 4 (x AND 0x7) AND (0x0F :: u8) = 0"
  unfolding u8_masks by (rule bit_word_eqI) (auto simp: bit_simps)

lemma pack_low_nibble_sign: "(push_bit 4 (x AND 0x7) OR push_bit 7 1) AND (0x0F :: u8) = 0"
  unfolding u8_masks by (rule bit_word_eqI) (simp only: bit_simps, auto)

lemma pack_bit7_clear: "\<not> bit (push_bit 4 (x AND (0x7 :: u8))) 7"
  unfolding u8_masks by (auto simp: bit_simps)

lemma pack_bit7_set: "bit (y OR (push_bit 7 1 :: u8)) 7"
  by (auto simp: bit_simps)

lemma unat_of_nat_u16: "k < 65536 \<Longrightarrow> unat (of_nat k :: u16) = k"
  by (simp add: unat_of_nat)

lemma size_t_small: "a < 65536 \<Longrightarrow> a mod SIZE_T_MOD = a"
  by (simp add: SIZE_T_MOD_def)

lemma lastRecordOf_small:
  assumes "0 < n + f" and "n + f \<le> 65536"
  shows "lastRecordOf n f = n + f - 1"
proof -
  have big: "n + f < SIZE_T_MOD"
    using assms by (simp add: SIZE_T_MOD_def)
  have one: "1 < SIZE_T_MOD"
    by (simp add: SIZE_T_MOD_def)
  have m1: "(n + f) mod SIZE_T_MOD = n + f"
    using big by (rule mod_less)
  have m2: "1 mod SIZE_T_MOD = 1"
    using one by (rule mod_less)
  have m3: "(n + f - 1) mod SIZE_T_MOD = n + f - 1"
    using big by (intro mod_less) arith
  have shift: "n + f + SIZE_T_MOD - 1 = (n + f - 1) + SIZE_T_MOD"
    using assms by arith
  have "lastRecordOf n f = (n + f + SIZE_T_MOD - 1) mod SIZE_T_MOD"
    unfolding lastRecordOf_def size_t_add_def size_t_sub_def m1 m2 by (rule refl)
  also have "\<dots> = (n + f - 1) mod SIZE_T_MOD"
    unfolding shift by (rule mod_add_self2)
  finally show ?thesis
    unfolding m3 .
qed

lemmas cc_defs =
  IPMI_CC_OK_def IPMI_CC_INVALID_RESERVATION_ID_def IPMI_CC_REQ_DATA_LEN_INVALID_def
  IPMI_CC_INVALID_FIELD_REQUEST_def IPMI_CC_RESPONSE_ERROR_def

subsection \<open>The sample platform, evaluated\<close>

lemma sample_now: "duration_cast_seconds 10000000000 = 10"
  by (simp add: duration_cast_seconds_def steady_clock_ticks_per_second_def)

lemma stale_elapsed: "duration_cast_seconds 9000000000 = 9"
  by (simp add: duration_cast_seconds_def steady_clock_ticks_per_second_def)

lemma sample_getSensorMap:
  "updateTimeMap st sample_connection = None \<Longrightarrow>
   getSensorMap sample_backend sample_connection sample_path st =
     (Some sample_sensorMap,
      st\<lparr>updateTimeMap := (updateTimeMap st)(sample_connection \<mapsto> 10000000000),
         backendLog := backendLog st @ [GetManagedObjects sample_connection],
         SensorCache := (SensorCache st)(sample_connection \<mapsto> sample_objects)\<rparr>)"
  by (simp add: getSensorMap_def sample_backend_def sample_now sensorMapUpdatePeriod_def Let_def
      sample_getManagedObjects_def sensorCacheLookup_def sample_objects_def)

lemma valueless_getSensorMap:
  "updateTimeMap st sample_connection = None \<Longrightarrow>
   fst (getSensorMap valueless_backend sample_connection sample_path st) = Some valueless_sensorMap"
  by (simp add: getSensorMap_def valueless_backend_def sample_backend_def sample_now
      sensorMapUpdatePeriod_def Let_def sensorCacheLookup_def)

lemma sample_value_interface:
  "sample_sensorMap ''xyz.openbmc_project.Sensor.Value'' = Some [''Value'' \<mapsto> VDouble 42]"
  by (simp add: sample_sensorMap_def)

lemma sample_getIPMIThresholds:
  "getIPMIThresholds sample_backend sample_sensorMap =
     Some \<lparr>warningLow = None, warningHigh = None, criticalLow = None, criticalHigh = Some 90\<rparr>"
  by (simp add: getIPMIThresholds_def sample_sensorMap_def Let_def getSensorMaxMin_def
     sample_backend_def sample_getSensorAttributes_def scaledProperty_def sample_scale_def
     sample_variantToDouble_def)

lemma sample_identity:
  "sdrRecordIdentity sample_constants sample_backend 0 sample_path =
     \<lparr>header = \<lparr>record_id_lsb = 0, record_id_msb = 0, sdr_version = 0x51, record_type = 0x01,
                record_length = 59\<rparr>,
      key = \<lparr>owner_id = 0x20, owner_lun = 0, sensor_number = 0\<rparr>,
      body = \<lparr>entity_id = 0, entity_instance = 1, sensor_capabilities = 0x68, sensor_type = 1,
              event_reading_type = 1, supported_assertions = [0, 0],
              supported_deassertions = [0, 0], discrete_reading_setting_mask = [0, 0],
              sensor_units_1 = 0, sensor_units_2_base = 1, m_lsb = 0, m_msb_and_tolerance = 0,
              b_lsb = 0, b_msb_and_accuracy_lsb = 0, r_b_exponents = 0,
              upper_critical_threshold = 0, upper_noncritical_threshold = 0,
              lower_critical_threshold = 0, lower_noncritical_threshold = 0,
              id_string_info = 0,
              id_string = replicate 16 (CHR 0x00)\<rparr>\<rparr>"
  by (simp add: sdrRecordIdentity_def zeroFullRecord_def sample_constants_def sample_backend_def
      size_t_sub_def SIZE_T_MOD_def recordIdMsb_def recordIdLsb_def sensorUnits_def
      sample_typeOfPath_def sample_typeStringOfPath_def Let_def)

lemma sample_attributes:
  "getSensorAttributes sample_backend 128 (- 127) = Some (1, - 2, 128, 3, True)"
  "getSensorAttributes sample_backend 127 (- 128) = Some (1, - 2, 127, 3, True)"
  by (simp_all add: sample_backend_def sample_getSensorAttributes_def)

lemma sample_range: "sdrSensorMaxMin sample_backend [''Value'' \<mapsto> VDouble 42] = (128, - 127)"
  by (simp add: sdrSensorMaxMin_def)

lemma sample_name: "sdrSensorName sample_constants sample_path = ''cpu 0''"
  by (simp add: sdrSensorName_def sample_path_def sample_constants_def)

lemma sample_assemble:
  "sdrAssembleRecord sample_constants sample_backend 0 sample_path sample_sensorMap
     = Some sample_record"
  apply (simp add: sdrAssembleRecord_def Let_def sample_value_interface sample_identity
      sample_getIPMIThresholds sample_range sample_name sample_attributes)
  apply (simp add: sample_record_def lsbOf_def msbOf_def packExponents_def strncpy_def
      sdrApplyThresholds_def orAt_def sample_constants_def)
  done

lemma sample_findSensor: "sdrFindSensor sample_tree 0 = Some (sample_connection, sample_path)"
  by (simp add: sample_tree_def)

lemma sample_fullRecord:
  assumes "sensorTree st = sample_tree" and "updateTimeMap st sample_connection = None"
  shows "fst (sdrFullRecord sample_constants sample_backend 0 nextRecordId offset n st) =
           readWindow 64 (sample_fullRecordBytes sample_record) offset
             (clampBytesToRead 64 offset n) nextRecordId"
proof -
  have c: "sizeof_SensorDataFullRecord sample_constants = 64"
    by (simp add: sample_constants_def)
  have b: "bytesOfFullRecord sample_backend = sample_fullRecordBytes"
    by (simp add: sample_backend_def)
  show ?thesis
    by (simp add: sdrFullRecord_def assms sample_findSensor sample_getSensorMap sample_assemble
        Let_def c b)
qed

lemma sample_lastRecord: "lastRecordOf (length sample_tree) 2 = 2"
proof -
  have "length sample_tree + 2 = 3" by (simp add: sample_tree_def)
  then show ?thesis
    by (simp add: lastRecordOf_def size_t_add_def size_t_sub_def size_t_small)
      (simp add: SIZE_T_MOD_def)
qed

lemma sample_getSDRRecord_sensor:
  assumes "sensorTree st = sample_tree" and "updateTimeMap st sample_connection = None"
  shows "fst (getSDRRecord sample_constants sample_backend 2 0 offset n st) =
           readWindow 64 (sample_fullRecordBytes sample_record) offset
             (clampBytesToRead 64 offset n) 1"
proof -
  have l: "length sample_tree = 1" by (simp add: sample_tree_def)
  show ?thesis
    using sample_lastRecord
    by (simp add: getSDRRecord_def assms(1) resolveRecordID_def Let_def l
        sample_fullRecord [OF assms])
qed

lemma sample_load:
  "sensorTree st = sample_tree \<Longrightarrow> loadSensorTree sample_backend st = (True, st)"
  by (simp add: loadSensorTree_def sample_tree_def)

lemma sample_fruCount: "getFruSdrCount sample_backend = (IPMI_CC_OK, 2)"
  by (simp add: sample_backend_def)

lemma sample_getSDR:
  assumes "sensorTree st = sample_tree"
    and "offset = 0 \<or> (sdrReservationID st \<noteq> 0 \<and> reservationID = sdrReservationID st)"
  shows "ipmiStorageGetSDR sample_constants sample_backend reservationID recordID offset n st =
           getSDRRecord sample_constants sample_backend 2 recordID offset n st"
proof -
  have "(2 :: nat) mod SIZE_T_MOD = 2" by (rule size_t_small) simp
  with assms(2) show ?thesis
    by (auto simp: ipmiStorageGetSDR_def sample_load [OF assms(1)] sample_fruCount)
qed

lemma sample_first_chunk:
  "fst (ipmiStorageGetSDR sample_constants sample_backend 7 0 0 5 sample_state) =
     Success 1 [0, 0, 0x51, 0x01, 59]"
proof -
  have t: "sensorTree sample_state = sample_tree" "updateTimeMap sample_state sample_connection = None"
    by (simp_all add: sample_state_def)
  have "ipmiStorageGetSDR sample_constants sample_backend 7 0 0 5 sample_state =
      getSDRRecord sample_constants sample_backend 2 0 0 5 sample_state"
    by (rule sample_getSDR [OF t(1)]) simp
  then show ?thesis
    by (simp add: sample_getSDRRecord_sensor [OF t] clampBytesToRead_def readWindow_def
        sample_fullRecordBytes_def sample_record_def)
qed

lemma sample_overrun:
  "fst (ipmiStorageGetSDR sample_constants sample_backend 1 0 200 10 reserved_state) =
     OutOfBoundsRead 200 120"
proof -
  have t: "sensorTree reserved_state = sample_tree"
    "updateTimeMap reserved_state sample_connection = None"
    "sdrReservationID reserved_state = 1"
    by (simp_all add: reserved_state_def sample_state_def)
  have c: "clampBytesToRead 64 200 10 = 120"
    by (simp add: clampBytesToRead_def size_t_sub_def SIZE_T_MOD_def)
  have "ipmiStorageGetSDR sample_constants sample_backend 1 0 200 10 reserved_state =
      getSDRRecord sample_constants sample_backend 2 0 200 10 reserved_state"
    by (rule sample_getSDR [OF t(1)]) (simp add: t(3))
  then show ?thesis
    by (simp add: sample_getSDRRecord_sensor [OF t(1,2)] c readWindow_def)
qed

lemma sample_fru:
  assumes "sensorTree st = sample_tree"
  shows "getSDRRecord sample_constants sample_backend 2 2 0 5 st =
           (Success 0xFFFF [2, 0, 0x51, 0x11, 11], st)"
proof -
  have l: "length sample_tree = 1" by (simp add: sample_tree_def)
  have i: "size_t_sub 2 (Suc 0) = Suc 0" by (simp add: size_t_sub_def SIZE_T_MOD_def)
  have c: "clampBytesToRead 16 0 5 = 5" by (simp add: clampBytesToRead_def)
  have f: "sdrFruRecord sample_constants sample_backend (Suc 0) 2 2 0xFFFF 0 5 =
      Success 0xFFFF [2, 0, 0x51, 0x11, 11]"
    by (simp add: sdrFruRecord_def i Let_def sample_constants_def sample_backend_def cc_defs c
        sample_fruRecord_def readWindow_def sample_fruRecordBytes_def recordIdMsb_def recordIdLsb_def)
  show ?thesis
    using sample_lastRecord
    by (simp add: getSDRRecord_def assms resolveRecordID_def Let_def l f)
qed

lemma sample_fru_guard:
  "fst (ipmiStorageGetSDR sample_constants sample_backend 1 1 200 10 reserved_state) =
     Response IPMI_CC_INVALID_FIELD_REQUEST"
proof -
  have t: "sensorTree reserved_state = sample_tree" "sdrReservationID reserved_state = 1"
    by (simp_all add: reserved_state_def sample_state_def)
  have l: "length sample_tree = 1" by (simp add: sample_tree_def)
  have i: "size_t_sub (Suc 0) (Suc 0) = 0" by (simp add: size_t_sub_def SIZE_T_MOD_def)
  have f: "sdrFruRecord sample_constants sample_backend (Suc 0) 2 1 2 200 10 =
      Response IPMI_CC_INVALID_FIELD_REQUEST"
    by (simp add: sdrFruRecord_def i Let_def sample_constants_def)
  have "ipmiStorageGetSDR sample_constants sample_backend 1 1 200 10 reserved_state =
      getSDRRecord sample_constants sample_backend 2 1 200 10 reserved_state"
    by (rule sample_getSDR [OF t(1)]) (simp add: t(2))
  then show ?thesis
    using sample_lastRecord
    by (simp add: getSDRRecord_def t(1) resolveRecordID_def Let_def l f)
qed

lemma sample_resolve:
  "getSensorConnection sample_backend tree 0 = (0, sample_connection, sample_path, sample_tree)"
  "getSensorConnection valueless_backend tree 0 = (0, sample_connection, sample_path, sample_tree)"
  by (simp_all add: valueless_backend_def sample_backend_def sample_getSensorConnection_def)

subsection \<open>The exponent byte of a full record\<close>

lemma packExponents_eq:
  "packExponents bExp rExp =
     (if sint rExp < 0 then push_bit 4 (rExp AND 0x7) OR push_bit 7 1
      else push_bit 4 (rExp AND 0x7))"
  unfolding packExponents_def Let_def by (rule refl)

lemma packExponents_props:
  "packExponents bExp rExp = push_bit 4 (rExp AND 0x7) OR (if sint rExp < 0 then 0x80 else 0) \<and>
   packExponents bExp rExp AND 0x0F = 0 \<and>
   bit (packExponents bExp rExp) 7 = (sint rExp < 0)"
proof (cases "sint rExp < 0")
  case True
  have "(0x80 :: u8) = push_bit 7 1" by simp
  with True show ?thesis
    unfolding packExponents_eq
    using pack_low_nibble_sign [of rExp] pack_bit7_set [of "push_bit 4 (rExp AND 0x7)"]
    by (simp only: if_True simp_thms)
next
  case False
  then show ?thesis
    unfolding packExponents_eq using pack_low_nibble [of rExp] pack_bit7_clear [of rExp]
    by (simp only: if_False simp_thms or.right_neutral)
qed

lemma sdrApplyThresholds_exponents:
  "r_b_exponents (sdrApplyThresholds hc td b) = r_b_exponents b"
  by (simp add: sdrApplyThresholds_def Let_def split: option.splits)

lemma sdrAssembleRecord_exponents:
  assumes "sdrAssembleRecord hc be recordID path sensorMap = Some sdr"
    and "sensorMap ''xyz.openbmc_project.Sensor.Value'' = Some sensorObject"
    and "getSensorAttributes be (fst (sdrSensorMaxMin be sensorObject))
           (snd (sdrSensorMaxMin be sensorObject)) = Some (mValue, rExp, bValue, bExp, bSigned)"
  shows "r_b_exponents (body sdr) = packExponents bExp rExp"
  using assms
  by (auto simp: sdrAssembleRecord_def Let_def sdrApplyThresholds_exponents
      split: option.splits prod.splits if_splits)

text \<open>
  C1: in every full record that ipmiStorageGetSDR assembles for a live sensor, where
  getSensorAttributes gave the exponents \<open>rExp\<close> and \<open>bExp\<close>, the byte
  \<^verbatim>\<open>r_b_exponents\<close> is \<open>(rExp & 0x7) << 4\<close> with bit 7 set exactly when \<open>rExp < 0\<close>;
  its low nibble is 0, and the four statements that write the byte give the same result
  for every other B exponent \<open>bExp'\<close>: the assignment from \<open>bExp\<close> is overwritten.
\<close>

theorem r_b_exponents_drops_bExp:
  assumes "sdrAssembleRecord hc be recordID path sensorMap = Some sdr"
    and "sensorMap ''xyz.openbmc_project.Sensor.Value'' = Some sensorObject"
    and "getSensorAttributes be (fst (sdrSensorMaxMin be sensorObject))
           (snd (sdrSensorMaxMin be sensorObject)) = Some (mValue, rExp, bValue, bExp, bSigned)"
  shows "r_b_exponents (body sdr)
           = push_bit 4 (rExp AND 0x7) OR (if sint rExp < 0 then 0x80 else 0) \<and>
         r_b_exponents (body sdr) AND 0x0F = 0 \<and>
         bit (r_b_exponents (body sdr)) 7 = (sint rExp < 0) \<and>
         packExponents bExp rExp = packExponents bExp' rExp"
proof -
  have e: "r_b_exponents (body sdr) = packExponents bExp rExp"
    by (rule sdrAssembleRecord_exponents [OF assms])
  have indep: "packExponents bExp rExp = packExponents bExp' rExp"
    by (simp only: packExponents_eq)
  from packExponents_props [of bExp rExp] indep show ?thesis
    unfolding e by blast
qed

text \<open>
  C1 on the sample platform: the sample sensor gets \<open>rExp = -2\<close> and \<open>bExp = 3\<close>, and
  the byte of its record is \<open>0xE0\<close>.
\<close>

theorem r_b_exponents_drops_bExp_witness:
  "sdrAssembleRecord sample_constants sample_backend 0 sample_path sample_sensorMap
     = Some sample_record \<and>
   r_b_exponents (body sample_record) = 0xE0 \<and>
   r_b_exponents (body sample_record) AND 0x0F = 0 \<and>
   bit (r_b_exponents (body sample_record)) 7"
proof -
  have a: "getSensorAttributes sample_backend
             (fst (sdrSensorMaxMin sample_backend [''Value'' \<mapsto> VDouble 42]))
             (snd (sdrSensorMaxMin sample_backend [''Value'' \<mapsto> VDouble 42]))
           = Some (1, - 2, 128, 3, True)"
    by (simp add: sample_range sample_attributes)
  from r_b_exponents_drops_bExp [OF sample_assemble sample_value_interface a]
  show ?thesis
    using sample_assemble by simp
qed

subsection \<open>The reservation check of ipmiStorageGetSDR\<close>

lemma getSensorMap_reservation:
  "getSensorMap be c p (st\<lparr>sdrReservationID := r\<rparr>) =
     (fst (getSensorMap be c p st), (snd (getSensorMap be c p st))\<lparr>sdrReservationID := r\<rparr>)"
  by (simp add: getSensorMap_def sensorCacheLookup_def Let_def split: option.splits)

lemma loadSensorTree_reservation:
  "loadSensorTree be (st\<lparr>sdrReservationID := r\<rparr>) =
     (fst (loadSensorTree be st), (snd (loadSensorTree be st))\<lparr>sdrReservationID := r\<rparr>)"
  by (simp add: loadSensorTree_def split: prod.splits)

lemma sdrFullRecord_reservation:
  "sdrFullRecord hc be recordID nextRecordId offset n (st\<lparr>sdrReservationID := r\<rparr>) =
     (fst (sdrFullRecord hc be recordID nextRecordId offset n st),
      (snd (sdrFullRecord hc be recordID nextRecordId offset n st))\<lparr>sdrReservationID := r\<rparr>)"
  by (simp add: sdrFullRecord_def getSensorMap_reservation Let_def split: option.splits prod.splits)

lemma getSDRRecord_reservation:
  "getSDRRecord hc be fruCount recordID offset n (st\<lparr>sdrReservationID := r\<rparr>) =
     (fst (getSDRRecord hc be fruCount recordID offset n st),
      (snd (getSDRRecord hc be fruCount recordID offset n st))\<lparr>sdrReservationID := r\<rparr>)"
  by (simp add: getSDRRecord_def sdrFullRecord_reservation Let_def)

lemma getSDR_offset0:
  "fst (ipmiStorageGetSDR hc be rid recordID 0 n (st\<lparr>sdrReservationID := r\<rparr>)) =
   fst (ipmiStorageGetSDR hc be rid' recordID 0 n st)"
  by (simp add: ipmiStorageGetSDR_def loadSensorTree_reservation getSDRRecord_reservation
      split: prod.splits)

lemma readWindow_response: "readWindow sz bs offset n nextRecordId \<noteq> Response cc"
  by (simp add: readWindow_def)

lemma sdrFruRecord_response:
  assumes "sdrFruRecord hc be sc fc recordID nextRecordId offset n = Response cc"
  shows "cc = IPMI_CC_INVALID_FIELD_REQUEST \<or> (\<exists>i. fst (getFruSdrs be i) = cc)"
proof -
  obtain ret data where g: "getFruSdrs be (size_t_sub (unat recordID) sc) = (ret, data)"
    by (cases "getFruSdrs be (size_t_sub (unat recordID) sc)") auto
  then have "fst (getFruSdrs be (size_t_sub (unat recordID) sc)) = ret"
    by simp
  then have "\<exists>i. fst (getFruSdrs be i) = ret" ..
  with assms g show ?thesis
    by (auto simp: sdrFruRecord_def Let_def readWindow_response split: if_splits)
qed

lemma sdrFullRecord_response:
  assumes "fst (sdrFullRecord hc be recordID nextRecordId offset n st) = Response cc"
  shows "cc = IPMI_CC_RESPONSE_ERROR"
proof (cases "sdrFindSensor (sensorTree st) recordID")
  case None
  with assms show ?thesis by (simp add: sdrFullRecord_def)
next
  case (Some cp)
  obtain c p where cp: "cp = (c, p)" by (cases cp) auto
  obtain m st1 where g: "getSensorMap be c p st = (m, st1)"
    by (cases "getSensorMap be c p st") auto
  show ?thesis
  proof (cases m)
    case None
    with assms Some cp g show ?thesis by (simp add: sdrFullRecord_def)
  next
    case m: (Some sensorMap)
    show ?thesis
    proof (cases "sdrAssembleRecord hc be recordID p sensorMap")
      case None
      with assms Some cp g m show ?thesis by (simp add: sdrFullRecord_def)
    next
      case r: (Some sdr)
      with assms Some cp g m show ?thesis
        by (simp add: sdrFullRecord_def Let_def readWindow_response)
    qed
  qed
qed

lemma getSDRRecord_response:
  assumes "fst (getSDRRecord hc be fruCount recordID offset n st) = Response cc"
  shows "cc = IPMI_CC_INVALID_FIELD_REQUEST \<or> cc = IPMI_CC_RESPONSE_ERROR \<or>
         (\<exists>i. fst (getFruSdrs be i) = cc)"
  using assms
  by (auto simp: getSDRRecord_def Let_def split: if_splits
      dest: sdrFruRecord_response sdrFullRecord_response)

lemma getSDR_offset0_response:
  assumes "fst (ipmiStorageGetSDR hc be rid recordID 0 n st) = Response cc"
  shows "cc = IPMI_CC_INVALID_FIELD_REQUEST \<or> cc = IPMI_CC_RESPONSE_ERROR \<or>
         cc = fst (getFruSdrCount be) \<or> (\<exists>i. fst (getFruSdrs be i) = cc)"
proof -
  obtain ok st1 where l: "loadSensorTree be st = (ok, st1)"
    by (cases "loadSensorTree be st") auto
  obtain ret fruCount where f: "getFruSdrCount be = (ret, fruCount)"
    by (cases "getFruSdrCount be") auto
  show ?thesis
  proof (cases "ok \<and> ret = IPMI_CC_OK")
    case True
    with assms l f have "fst (getSDRRecord hc be (fruCount mod SIZE_T_MOD) recordID 0 n st1)
        = Response cc"
      by (simp add: ipmiStorageGetSDR_def)
    then show ?thesis
      using getSDRRecord_response by blast
  next
    case False
    with assms l f show ?thesis
      by (auto simp: ipmiStorageGetSDR_def split: if_splits)
  qed
qed

text \<open>
  C2: with \<open>offset = 0\<close> the response of ipmiStorageGetSDR does not depend on the
  reservation: it is the same for every supplied reservation ID and every value of the
  reservation counter, 0 included; and the handler never answers it with
  invalid-reservation-id of its own (the code can then only be one that the FRU storage
  commands returned). With \<open>offset \<noteq> 0\<close>, when the counter is 0 or the supplied ID
  differs from it, the call ends with the invalid-reservation-id completion code, returns
  no record bytes and leaves the state as it was.
\<close>

theorem getSDR_reservation_gate:
  "(offset = 0 \<longrightarrow>
      fst (ipmiStorageGetSDR hc be reservationID recordID offset bytesToRead st) =
      fst (ipmiStorageGetSDR hc be reservationID' recordID offset bytesToRead
             (st\<lparr>sdrReservationID := current\<rparr>))) \<and>
   (offset = 0 \<and>
    fst (ipmiStorageGetSDR hc be reservationID recordID offset bytesToRead st)
      = Response IPMI_CC_INVALID_RESERVATION_ID \<longrightarrow>
      fst (getFruSdrCount be) = IPMI_CC_INVALID_RESERVATION_ID \<or>
      (\<exists>i. fst (getFruSdrs be i) = IPMI_CC_INVALID_RESERVATION_ID)) \<and>
   (offset \<noteq> 0 \<and> (sdrReservationID st = 0 \<or> reservationID \<noteq> sdrReservationID st) \<longrightarrow>
      ipmiStorageGetSDR hc be reservationID recordID offset bytesToRead st =
        (Response IPMI_CC_INVALID_RESERVATION_ID, st))"
proof (intro conjI impI)
  assume a: "offset = 0 \<and>
    fst (ipmiStorageGetSDR hc be reservationID recordID offset bytesToRead st)
      = Response IPMI_CC_INVALID_RESERVATION_ID"
  then have z: "offset = 0" ..
  from a have "fst (ipmiStorageGetSDR hc be reservationID recordID 0 bytesToRead st)
      = Response IPMI_CC_INVALID_RESERVATION_ID"
    unfolding z ..
  from getSDR_offset0_response [OF this]
  show "fst (getFruSdrCount be) = IPMI_CC_INVALID_RESERVATION_ID \<or>
      (\<exists>i. fst (getFruSdrs be i) = IPMI_CC_INVALID_RESERVATION_ID)"
    by (auto simp: cc_defs)
next
  assume "offset = 0"
  then show "fst (ipmiStorageGetSDR hc be reservationID recordID offset bytesToRead st) =
      fst (ipmiStorageGetSDR hc be reservationID' recordID offset bytesToRead
             (st\<lparr>sdrReservationID := current\<rparr>))"
    by (simp only: getSDR_offset0 [where rid' = reservationID])
next
  assume "offset \<noteq> 0 \<and> (sdrReservationID st = 0 \<or> reservationID \<noteq> sdrReservationID st)"
  then show "ipmiStorageGetSDR hc be reservationID recordID offset bytesToRead st =
        (Response IPMI_CC_INVALID_RESERVATION_ID, st)"
    by (simp add: ipmiStorageGetSDR_def)
qed

text \<open>
  C2 on the sample platform: with no reservation ever issued, the first five bytes of
  record 0 are returned whatever ID is supplied, as they are once a reservation exists;
  a read at offset 1 is refused.
\<close>

theorem getSDR_reservation_gate_witness:
  "fst (ipmiStorageGetSDR sample_constants sample_backend 7 0 0 5 sample_state) =
     fst (ipmiStorageGetSDR sample_constants sample_backend 9 0 0 5
            (sample_state\<lparr>sdrReservationID := 1\<rparr>)) \<and>
   fst (ipmiStorageGetSDR sample_constants sample_backend 9 0 0 5
          (sample_state\<lparr>sdrReservationID := 1\<rparr>)) = Success 1 [0, 0, 0x51, 0x01, 59] \<and>
   ipmiStorageGetSDR sample_constants sample_backend 7 0 1 5 sample_state =
     (Response IPMI_CC_INVALID_RESERVATION_ID, sample_state)"
proof -
  have z: "sdrReservationID sample_state = 0"
    by (simp add: sample_state_def)
  from getSDR_reservation_gate [where offset = 0 and hc = sample_constants
      and be = sample_backend and reservationID = 7 and reservationID' = 9 and recordID = 0
      and bytesToRead = 5 and st = sample_state and current = 1]
  have a: "fst (ipmiStorageGetSDR sample_constants sample_backend 7 0 0 5 sample_state) =
     fst (ipmiStorageGetSDR sample_constants sample_backend 9 0 0 5
            (sample_state\<lparr>sdrReservationID := 1\<rparr>))"
    by simp
  from getSDR_reservation_gate [where offset = 1 and hc = sample_constants
      and be = sample_backend and reservationID = 7 and recordID = 0
      and bytesToRead = 5 and st = sample_state] z
  have b: "ipmiStorageGetSDR sample_constants sample_backend 7 0 1 5 sample_state =
     (Response IPMI_CC_INVALID_RESERVATION_ID, sample_state)"
    by simp
  from a b sample_first_chunk show ?thesis
    by simp
qed

subsection \<open>Validation before the first write in ipmiSenSetSensorThresholds\<close>

lemma verifyInterface_lacking_lower:
  "setLower \<Longrightarrow>
   sensorMap interface = None \<or> (\<exists>props. sensorMap interface = Some props \<and> props lowName = None) \<Longrightarrow>
   verifyInterface sensorMap interface setLower lowName lowValue setUpper highName highValue = None"
  by (auto simp: verifyInterface_def)

lemma verifyInterface_lacking_upper:
  "setUpper \<Longrightarrow>
   sensorMap interface = None \<or> (\<exists>props. sensorMap interface = Some props \<and> props highName = None) \<Longrightarrow>
   verifyInterface sensorMap interface setLower lowName lowValue setUpper highName highValue = None"
  by (auto simp: verifyInterface_def)

lemma lacksThreshold_iff:
  "lacksThreshold sensorMap k \<longleftrightarrow>
     sensorMap (thresholdInterface k) = None \<or>
     (\<exists>props. sensorMap (thresholdInterface k) = Some props \<and> props (thresholdProperty k) = None)"
  by (auto simp: lacksThreshold_def split: option.splits)

lemma thresholdsToSet_lacking:
  assumes sel: "selects hc (req_mask req) k" and lack: "lacksThreshold sensorMap k"
  shows "thresholdsToSet hc req sensorMap = None"
proof (cases k)
  case LowerCritical
  from sel lack have "verifyInterface sensorMap ''xyz.openbmc_project.Sensor.Threshold.Critical''
      (req_mask req AND ReqEnable_setLowerCritical hc \<noteq> 0) ''CriticalLow'' (lowerCritical req)
      (req_mask req AND ReqEnable_setUpperCritical hc \<noteq> 0) ''CriticalHigh'' (upperCritical req) = None"
    unfolding LowerCritical lacksThreshold_iff
    by (intro verifyInterface_lacking_lower) simp_all
  then show ?thesis
    by (simp add: thresholdsToSet_def Let_def)
next
  case UpperCritical
  from sel lack have "verifyInterface sensorMap ''xyz.openbmc_project.Sensor.Threshold.Critical''
      (req_mask req AND ReqEnable_setLowerCritical hc \<noteq> 0) ''CriticalLow'' (lowerCritical req)
      (req_mask req AND ReqEnable_setUpperCritical hc \<noteq> 0) ''CriticalHigh'' (upperCritical req) = None"
    unfolding UpperCritical lacksThreshold_iff
    by (intro verifyInterface_lacking_upper) simp_all
  then show ?thesis
    by (simp add: thresholdsToSet_def Let_def)
next
  case LowerWarning
  from sel lack have "verifyInterface sensorMap ''xyz.openbmc_project.Sensor.Threshold.Warning''
      (req_mask req AND ReqEnable_setLowerNonCritical hc \<noteq> 0) ''WarningLow'' (lowerNonCritical req)
      (req_mask req AND ReqEnable_setUpperNonCritical hc \<noteq> 0) ''WarningHigh'' (upperNonCritical req) = None"
    unfolding LowerWarning lacksThreshold_iff
    by (intro verifyInterface_lacking_lower) simp_all
  then show ?thesis
    by (simp add: thresholdsToSet_def Let_def split: option.splits)
next
  case UpperWarning
  from sel lack have "verifyInterface sensorMap ''xyz.openbmc_project.Sensor.Threshold.Warning''
      (req_mask req AND ReqEnable_setLowerNonCritical hc \<noteq> 0) ''WarningLow'' (lowerNonCritical req)
      (req_mask req AND ReqEnable_setUpperNonCritical hc \<noteq> 0) ''WarningHigh'' (upperNonCritical req) = None"
    unfolding UpperWarning lacksThreshold_iff
    by (intro verifyInterface_lacking_upper) simp_all
  then show ?thesis
    by (simp add: thresholdsToSet_def Let_def split: option.splits)
qed

lemma setThresholdsOnMap_failure:
  assumes "fst (fst (setThresholdsOnMap hc be req connection path sensorMap st)) \<noteq> IPMI_CC_OK"
  shows "snd (setThresholdsOnMap hc be req connection path sensorMap st) = st"
proof (cases "sensorMap ''xyz.openbmc_project.Sensor.Value''")
  case None
  then show ?thesis by (simp add: setThresholdsOnMap_def)
next
  case (Some sensorObject)
  obtain mx mn where r: "getSensorMaxMin be sensorObject = (mx, mn)"
    by (cases "getSensorMaxMin be sensorObject") auto
  show ?thesis
  proof (cases "getSensorAttributes be mx mn")
    case None
    with Some r show ?thesis by (simp add: setThresholdsOnMap_def)
  next
    case a: (Some attrs)
    obtain mValue rExp bValue bExp bSigned where t: "attrs = (mValue, rExp, bValue, bExp, bSigned)"
      by (cases attrs) auto
    show ?thesis
    proof (cases "thresholdsToSet hc req sensorMap")
      case None
      with Some r a t show ?thesis by (simp add: setThresholdsOnMap_def)
    next
      case p: (Some properties)
      with Some r a t assms show ?thesis by (simp add: setThresholdsOnMap_def)
    qed
  qed
qed

lemma setThresholdsOnMap_lacking:
  assumes "selects hc (req_mask req) k" and "lacksThreshold sensorMap k"
  shows "fst (fst (setThresholdsOnMap hc be req connection path sensorMap st)) \<noteq> IPMI_CC_OK"
    and "sensorMap ''xyz.openbmc_project.Sensor.Value'' = Some sensorObject \<Longrightarrow>
         getSensorAttributes be (fst (getSensorMaxMin be sensorObject))
           (snd (getSensorMaxMin be sensorObject)) \<noteq> None \<Longrightarrow>
         fst (fst (setThresholdsOnMap hc be req connection path sensorMap st))
           = IPMI_CC_INVALID_FIELD_REQUEST"
  using thresholdsToSet_lacking [OF assms]
  by (auto simp: setThresholdsOnMap_def IPMI_CC_OK_def IPMI_CC_RESPONSE_ERROR_def
      IPMI_CC_INVALID_FIELD_REQUEST_def split: option.splits prod.splits)

lemma setThresholdsOnMap_unreadable:
  assumes "sensorMap ''xyz.openbmc_project.Sensor.Value'' = None \<or>
           (\<exists>sensorObject. sensorMap ''xyz.openbmc_project.Sensor.Value'' = Some sensorObject \<and>
              getSensorAttributes be (fst (getSensorMaxMin be sensorObject))
                (snd (getSensorMaxMin be sensorObject)) = None)"
  shows "fst (fst (setThresholdsOnMap hc be req connection path sensorMap st))
           = IPMI_CC_RESPONSE_ERROR"
proof (cases "sensorMap ''xyz.openbmc_project.Sensor.Value''")
  case None
  then show ?thesis by (simp add: setThresholdsOnMap_def)
next
  case (Some sensorObject)
  obtain mx mn where r: "getSensorMaxMin be sensorObject = (mx, mn)"
    by (cases "getSensorMaxMin be sensorObject") auto
  with assms Some have "getSensorAttributes be mx mn = None"
    by simp
  with Some r show ?thesis by (simp add: setThresholdsOnMap_def)
qed

lemma getSensorMap_log:
  "\<exists>calls. backendLog (snd (getSensorMap be c p st)) = backendLog st @ calls \<and>
           (\<forall>x \<in> set calls. \<not> isPropertyWrite x)"
proof (cases "duration_cast_seconds
           (steady_clock_now be - (case updateTimeMap st c of None \<Rightarrow> 0 | Some t \<Rightarrow> t))
         > sensorMapUpdatePeriod")
  case True
  then have "backendLog (snd (getSensorMap be c p st)) = backendLog st @ [GetManagedObjects c] \<and>
      (\<forall>x \<in> set [GetManagedObjects c]. \<not> isPropertyWrite x)"
    by (simp add: getSensorMap_def Let_def split: option.splits)
  then show ?thesis by blast
next
  case False
  then have "backendLog (snd (getSensorMap be c p st)) = backendLog st @ [] \<and>
      (\<forall>x \<in> set ([] :: backend_call list). \<not> isPropertyWrite x)"
    by (simp add: getSensorMap_def Let_def)
  then show ?thesis by blast
qed

lemma setThresholds_failure_state:
  assumes fail: "fst (fst (ipmiSenSetSensorThresholds hc be dataLen req st)) \<noteq> IPMI_CC_OK"
    and conn: "getSensorConnection be (sensorTree st) (sensorNum req) = (status, connection, path, tree)"
    and st1: "st1 = st\<lparr>sensorTree := tree, backendLog := backendLog st @ [ResolveSensor (sensorNum req)]\<rparr>"
  shows "snd (ipmiSenSetSensorThresholds hc be dataLen req st) = st \<or>
         snd (ipmiSenSetSensorThresholds hc be dataLen req st) = st1 \<or>
         snd (ipmiSenSetSensorThresholds hc be dataLen req st) = snd (getSensorMap be connection path st1)"
proof (cases "dataLen \<noteq> 8 \<or> req_mask req AND 0xC0 \<noteq> 0 \<or>
    req_mask req AND ReqEnable_setLowerNonRecoverable hc \<noteq> 0 \<or>
    req_mask req AND ReqEnable_setUpperNonRecoverable hc \<noteq> 0 \<or> req_mask req = 0")
  case True
  then have "snd (ipmiSenSetSensorThresholds hc be dataLen req st) = st"
    by (auto simp: ipmiSenSetSensorThresholds_def)
  then show ?thesis by simp
next
  case gates: False
  show ?thesis
  proof (cases "status \<noteq> 0")
    case True
    with gates conn have "snd (ipmiSenSetSensorThresholds hc be dataLen req st) = st1"
      by (simp add: ipmiSenSetSensorThresholds_def st1 Let_def)
    then show ?thesis by simp
  next
    case ok: False
    obtain m st2 where g: "getSensorMap be connection path st1 = (m, st2)"
      by (cases "getSensorMap be connection path st1") auto
    show ?thesis
    proof (cases m)
      case None
      with gates conn ok g have "snd (ipmiSenSetSensorThresholds hc be dataLen req st) = st2"
        by (simp add: ipmiSenSetSensorThresholds_def st1 [symmetric] Let_def)
      with g show ?thesis by simp
    next
      case (Some sensorMap)
      with gates conn ok g have e: "ipmiSenSetSensorThresholds hc be dataLen req st =
          setThresholdsOnMap hc be req connection path sensorMap st2"
        by (simp add: ipmiSenSetSensorThresholds_def st1 [symmetric] Let_def)
      with fail have "snd (setThresholdsOnMap hc be req connection path sensorMap st2) = st2"
        by (intro setThresholdsOnMap_failure) simp
      with e g show ?thesis by simp
    qed
  qed
qed

lemma setThresholds_failure_writes_nothing:
  assumes "fst (fst (ipmiSenSetSensorThresholds hc be dataLen req st)) \<noteq> IPMI_CC_OK"
  shows "\<exists>calls. backendLog (snd (ipmiSenSetSensorThresholds hc be dataLen req st))
             = backendLog st @ calls \<and> (\<forall>x \<in> set calls. \<not> isPropertyWrite x)"
proof -
  obtain status connection path tree where
    conn: "getSensorConnection be (sensorTree st) (sensorNum req) = (status, connection, path, tree)"
    by (cases "getSensorConnection be (sensorTree st) (sensorNum req)") auto
  define st1 where
    "st1 = st\<lparr>sensorTree := tree, backendLog := backendLog st @ [ResolveSensor (sensorNum req)]\<rparr>"
  obtain calls where
    calls: "backendLog (snd (getSensorMap be connection path st1)) = backendLog st1 @ calls"
      "\<forall>x \<in> set calls. \<not> isPropertyWrite x"
    using getSensorMap_log [of be connection path st1] by blast
  let ?r = "ipmiSenSetSensorThresholds hc be dataLen req st"
  from setThresholds_failure_state [OF assms conn st1_def]
  consider "snd ?r = st" | "snd ?r = st1" | "snd ?r = snd (getSensorMap be connection path st1)"
    by blast
  then show ?thesis
  proof cases
    case 1
    then have "backendLog (snd ?r) = backendLog st @ [] \<and>
        (\<forall>x \<in> set ([] :: backend_call list). \<not> isPropertyWrite x)"
      by simp
    then show ?thesis by blast
  next
    case 2
    then have "backendLog (snd ?r) = backendLog st @ [ResolveSensor (sensorNum req)] \<and>
        (\<forall>x \<in> set [ResolveSensor (sensorNum req)]. \<not> isPropertyWrite x)"
      by (simp add: st1_def)
    then show ?thesis by blast
  next
    case 3
    with calls have "backendLog (snd ?r) = backendLog st @ (ResolveSensor (sensorNum req) # calls) \<and>
        (\<forall>x \<in> set (ResolveSensor (sensorNum req) # calls). \<not> isPropertyWrite x)"
      by (simp add: st1_def)
    then show ?thesis by blast
  qed
qed

lemma sample_setThresholds_valueless:
  "fst (fst (ipmiSenSetSensorThresholds sample_constants valueless_backend 8
               (sample_request 0x02) sample_state)) = IPMI_CC_RESPONSE_ERROR"
proof -
  let ?st1 = "sample_state\<lparr>sensorTree := sample_tree,
    backendLog := backendLog sample_state @ [ResolveSensor 0]\<rparr>"
  have u: "updateTimeMap ?st1 sample_connection = None"
    by (simp add: sample_state_def)
  obtain st2 where g: "getSensorMap valueless_backend sample_connection sample_path ?st1
      = (Some valueless_sensorMap, st2)"
    using valueless_getSensorMap [OF u]
    by (cases "getSensorMap valueless_backend sample_connection sample_path ?st1") auto
  have v: "valueless_sensorMap ''xyz.openbmc_project.Sensor.Value'' = None"
    by (simp add: valueless_sensorMap_def)
  have m: "req_mask (sample_request 0x02) = 0x02" "sensorNum (sample_request 0x02) = 0"
    by (simp_all add: sample_request_def)
  have c: "ReqEnable_setLowerNonRecoverable sample_constants = 0x04"
    "ReqEnable_setUpperNonRecoverable sample_constants = 0x20"
    by (simp_all add: sample_constants_def)
  show ?thesis
    by (simp add: ipmiSenSetSensorThresholds_def m c sample_resolve g Let_def
        setThresholdsOnMap_def v)
qed

lemma sample_masks:
  "req_mask (sample_request m) = m" "sensorNum (sample_request m) = 0"
  "ReqEnable_setLowerNonRecoverable sample_constants = 0x04"
  "ReqEnable_setUpperNonRecoverable sample_constants = 0x20"
  by (simp_all add: sample_request_def sample_constants_def)

text \<open>
  C3 as stated fails. The sample sensor with warning thresholds and no value interface
  lacks the critical interface; a request of length 8 that selects the lower critical
  threshold reaches the sensor map and is answered with the response-error code, not
  with invalid-field-request: the handler looks for the value interface first.
\<close>

theorem setThresholds_missing_value_interface_counterexample:
  "selects sample_constants (req_mask (sample_request 0x02)) LowerCritical \<and>
   lacksThreshold valueless_sensorMap LowerCritical \<and>
   fst (getSensorMap valueless_backend sample_connection sample_path
          (sample_state\<lparr>sensorTree := sample_tree,
             backendLog := backendLog sample_state @ [ResolveSensor 0]\<rparr>))
     = Some valueless_sensorMap \<and>
   fst (fst (ipmiSenSetSensorThresholds sample_constants valueless_backend 8
               (sample_request 0x02) sample_state)) = IPMI_CC_RESPONSE_ERROR \<and>
   IPMI_CC_RESPONSE_ERROR \<noteq> IPMI_CC_INVALID_FIELD_REQUEST"
proof -
  have "selects sample_constants (req_mask (sample_request 0x02)) LowerCritical"
    by (simp add: sample_constants_def sample_request_def)
  moreover have "lacksThreshold valueless_sensorMap LowerCritical"
    by (simp add: lacksThreshold_def valueless_sensorMap_def)
  moreover have "fst (getSensorMap valueless_backend sample_connection sample_path
          (sample_state\<lparr>sensorTree := sample_tree,
             backendLog := backendLog sample_state @ [ResolveSensor 0]\<rparr>))
     = Some valueless_sensorMap"
    by (rule valueless_getSensorMap) (simp add: sample_state_def)
  moreover have "IPMI_CC_RESPONSE_ERROR \<noteq> IPMI_CC_INVALID_FIELD_REQUEST"
    by (simp add: cc_defs)
  ultimately show ?thesis
    using sample_setThresholds_valueless by blast
qed

text \<open>
  C3, amended: let a request of length 8 name a sensor that resolves and for which
  getSensorMap returns a sensor map. If the mask selects a threshold for which the map
  lacks the interface or the property, the request fails and the handler issues no
  property write at all (the backend calls it adds are the lookup and at most one
  enumeration): every selected threshold is checked before the first write. The
  completion code is invalid-field-request when the mask has one of the bits 0xC0 or a
  non-recoverable bit, and when the map has the value interface and getSensorAttributes
  accepts the sensor's range; it is response-error when the mask has none of those bits
  and the map lacks the value interface or getSensorAttributes refuses the range.
\<close>

theorem setThresholds_validates_before_writing:
  assumes len: "dataLen = 8"
    and conn: "getSensorConnection be (sensorTree st) (sensorNum req) = (0, connection, path, tree)"
    and smap: "getSensorMap be connection path
                 (st\<lparr>sensorTree := tree,
                     backendLog := backendLog st @ [ResolveSensor (sensorNum req)]\<rparr>)
               = (Some sensorMap, st2)"
    and sel: "selects hc (req_mask req) k"
    and lack: "lacksThreshold sensorMap k"
  shows "fst (fst (ipmiSenSetSensorThresholds hc be dataLen req st)) \<noteq> IPMI_CC_OK \<and>
         (\<exists>calls. backendLog (snd (ipmiSenSetSensorThresholds hc be dataLen req st))
                    = backendLog st @ calls \<and> (\<forall>x \<in> set calls. \<not> isPropertyWrite x)) \<and>
         (\<forall>sensorObject.
            sensorMap ''xyz.openbmc_project.Sensor.Value'' = Some sensorObject \<and>
            getSensorAttributes be (fst (getSensorMaxMin be sensorObject))
              (snd (getSensorMaxMin be sensorObject)) \<noteq> None \<longrightarrow>
            fst (fst (ipmiSenSetSensorThresholds hc be dataLen req st))
              = IPMI_CC_INVALID_FIELD_REQUEST) \<and>
         (req_mask req AND 0xC0 \<noteq> 0 \<or>
          req_mask req AND ReqEnable_setLowerNonRecoverable hc \<noteq> 0 \<or>
          req_mask req AND ReqEnable_setUpperNonRecoverable hc \<noteq> 0 \<longrightarrow>
            fst (fst (ipmiSenSetSensorThresholds hc be dataLen req st))
              = IPMI_CC_INVALID_FIELD_REQUEST) \<and>
         (req_mask req AND 0xC0 = 0 \<and>
          req_mask req AND ReqEnable_setLowerNonRecoverable hc = 0 \<and>
          req_mask req AND ReqEnable_setUpperNonRecoverable hc = 0 \<and>
          (sensorMap ''xyz.openbmc_project.Sensor.Value'' = None \<or>
           (\<exists>sensorObject.
              sensorMap ''xyz.openbmc_project.Sensor.Value'' = Some sensorObject \<and>
              getSensorAttributes be (fst (getSensorMaxMin be sensorObject))
                (snd (getSensorMaxMin be sensorObject)) = None)) \<longrightarrow>
            fst (fst (ipmiSenSetSensorThresholds hc be dataLen req st))
              = IPMI_CC_RESPONSE_ERROR)"
proof -
  let ?r = "ipmiSenSetSensorThresholds hc be dataLen req st"
  let ?gate = "req_mask req AND 0xC0 \<noteq> 0 \<or>
      req_mask req AND ReqEnable_setLowerNonRecoverable hc \<noteq> 0 \<or>
      req_mask req AND ReqEnable_setUpperNonRecoverable hc \<noteq> 0"
  let ?unreadable = "sensorMap ''xyz.openbmc_project.Sensor.Value'' = None \<or>
           (\<exists>sensorObject.
              sensorMap ''xyz.openbmc_project.Sensor.Value'' = Some sensorObject \<and>
              getSensorAttributes be (fst (getSensorMaxMin be sensorObject))
                (snd (getSensorMaxMin be sensorObject)) = None)"
  have nz: "req_mask req \<noteq> 0"
    using sel by (cases k) auto
  have refused: "?r = ((IPMI_CC_INVALID_FIELD_REQUEST, 0), st)" if ?gate
    using that len by (auto simp: ipmiSenSetSensorThresholds_def)
  have passed: "?r = setThresholdsOnMap hc be req connection path sensorMap st2" if "\<not> ?gate"
    using that len nz conn smap by (simp add: ipmiSenSetSensorThresholds_def Let_def)
  have code: "fst (fst ?r) \<noteq> IPMI_CC_OK \<and>
      (\<forall>sensorObject.
            sensorMap ''xyz.openbmc_project.Sensor.Value'' = Some sensorObject \<and>
            getSensorAttributes be (fst (getSensorMaxMin be sensorObject))
              (snd (getSensorMaxMin be sensorObject)) \<noteq> None \<longrightarrow>
            fst (fst ?r) = IPMI_CC_INVALID_FIELD_REQUEST)"
  proof (cases ?gate)
    case True
    then show ?thesis
      unfolding refused [OF True]
      by (simp add: IPMI_CC_INVALID_FIELD_REQUEST_def IPMI_CC_OK_def)
  next
    case False
    show ?thesis
      unfolding passed [OF False]
      using setThresholdsOnMap_lacking [OF sel lack, where be = be and connection = connection
          and path = path and st = st2]
      by simp
  qed
  have gate: "fst (fst ?r) = IPMI_CC_INVALID_FIELD_REQUEST" if ?gate
    unfolding refused [OF that] by simp
  have unreadable: "fst (fst ?r) = IPMI_CC_RESPONSE_ERROR" if "\<not> ?gate" ?unreadable
    unfolding passed [OF that(1)] using that(2) by (rule setThresholdsOnMap_unreadable)
  from code have "fst (fst ?r) \<noteq> IPMI_CC_OK" by blast
  then have "\<exists>calls. backendLog (snd ?r) = backendLog st @ calls \<and>
      (\<forall>x \<in> set calls. \<not> isPropertyWrite x)"
    by (rule setThresholds_failure_writes_nothing)
  with code gate unreadable show ?thesis by blast
qed

text \<open>
  C3 on the sample platform: the sample sensor has CriticalHigh and no CriticalLow. A
  request for both is answered with invalid-field-request and writes nothing, the valid
  upper threshold included. For the sensor with no value interface, the request for the
  lower critical threshold is answered with response-error, and with
  invalid-field-request once the mask also has the reserved bit 0x40.
\<close>

theorem setThresholds_validates_before_writing_witness:
  "fst (fst (ipmiSenSetSensorThresholds sample_constants sample_backend 8
               (sample_request 0x12) sample_state)) = IPMI_CC_INVALID_FIELD_REQUEST \<and>
   (\<exists>calls. backendLog (snd (ipmiSenSetSensorThresholds sample_constants sample_backend 8
                                 (sample_request 0x12) sample_state))
              = backendLog sample_state @ calls \<and> (\<forall>x \<in> set calls. \<not> isPropertyWrite x)) \<and>
   fst (fst (ipmiSenSetSensorThresholds sample_constants valueless_backend 8
               (sample_request 0x02) sample_state)) = IPMI_CC_RESPONSE_ERROR \<and>
   fst (fst (ipmiSenSetSensorThresholds sample_constants valueless_backend 8
               (sample_request 0x42) sample_state)) = IPMI_CC_INVALID_FIELD_REQUEST"
proof -
  let ?st1 = "sample_state\<lparr>sensorTree := sample_tree,
    backendLog := backendLog sample_state @ [ResolveSensor (sensorNum (sample_request 0x12))]\<rparr>"
  have n: "sensorNum (sample_request m) = 0" for m
    by (simp add: sample_request_def)
  have conn: "getSensorConnection sample_backend (sensorTree sample_state)
      (sensorNum (sample_request 0x12)) = (0, sample_connection, sample_path, sample_tree)"
    unfolding n by (rule sample_resolve(1))
  have u: "updateTimeMap ?st1 sample_connection = None"
    by (simp add: sample_state_def)
  note smap = sample_getSensorMap [OF u]
  have sel: "selects sample_constants (req_mask (sample_request 0x12)) LowerCritical"
    by (simp add: sample_constants_def sample_request_def)
  have lack: "lacksThreshold sample_sensorMap LowerCritical"
    by (simp add: lacksThreshold_def sample_sensorMap_def)
  have attrs: "getSensorAttributes sample_backend
      (fst (getSensorMaxMin sample_backend [''Value'' \<mapsto> VDouble 42]))
      (snd (getSensorMaxMin sample_backend [''Value'' \<mapsto> VDouble 42])) \<noteq> None"
    by (simp add: getSensorMaxMin_def Let_def sample_attributes)
  from setThresholds_validates_before_writing [OF refl conn smap sel lack]
    sample_value_interface attrs
  have a: "fst (fst (ipmiSenSetSensorThresholds sample_constants sample_backend 8
               (sample_request 0x12) sample_state)) = IPMI_CC_INVALID_FIELD_REQUEST \<and>
   (\<exists>calls. backendLog (snd (ipmiSenSetSensorThresholds sample_constants sample_backend 8
                                 (sample_request 0x12) sample_state))
              = backendLog sample_state @ calls \<and> (\<forall>x \<in> set calls. \<not> isPropertyWrite x))"
    by blast
  have vconn: "getSensorConnection valueless_backend (sensorTree sample_state)
      (sensorNum (sample_request m)) = (0, sample_connection, sample_path, sample_tree)" for m
    unfolding n by (rule sample_resolve(2))
  let ?v2 = "sample_state\<lparr>sensorTree := sample_tree,
    backendLog := backendLog sample_state @ [ResolveSensor (sensorNum (sample_request 0x02))]\<rparr>"
  let ?v3 = "sample_state\<lparr>sensorTree := sample_tree,
    backendLog := backendLog sample_state @ [ResolveSensor (sensorNum (sample_request 0x42))]\<rparr>"
  have vu: "updateTimeMap ?v2 sample_connection = None" "updateTimeMap ?v3 sample_connection = None"
    by (simp_all add: sample_state_def)
  obtain st2 where vmap2: "getSensorMap valueless_backend sample_connection sample_path ?v2
      = (Some valueless_sensorMap, st2)"
    using valueless_getSensorMap [OF vu(1)]
    by (cases "getSensorMap valueless_backend sample_connection sample_path ?v2") auto
  obtain st3 where vmap3: "getSensorMap valueless_backend sample_connection sample_path ?v3
      = (Some valueless_sensorMap, st3)"
    using valueless_getSensorMap [OF vu(2)]
    by (cases "getSensorMap valueless_backend sample_connection sample_path ?v3") auto
  have vsel: "selects sample_constants (req_mask (sample_request 0x02)) LowerCritical"
    "selects sample_constants (req_mask (sample_request 0x42)) LowerCritical"
    by (simp_all add: sample_constants_def sample_request_def)
  have vlack: "lacksThreshold valueless_sensorMap LowerCritical"
    by (simp add: lacksThreshold_def valueless_sensorMap_def)
  have v: "valueless_sensorMap ''xyz.openbmc_project.Sensor.Value'' = None"
    by (simp add: valueless_sensorMap_def)
  have g2: "req_mask (sample_request 0x02) AND 0xC0 = 0 \<and>
      req_mask (sample_request 0x02) AND ReqEnable_setLowerNonRecoverable sample_constants = 0 \<and>
      req_mask (sample_request 0x02) AND ReqEnable_setUpperNonRecoverable sample_constants = 0"
    by (simp add: sample_masks)
  have g3: "req_mask (sample_request 0x42) AND 0xC0 \<noteq> 0"
    by (simp add: sample_masks)
  from setThresholds_validates_before_writing [OF refl vconn vmap2 vsel(1) vlack] v g2
  have b: "fst (fst (ipmiSenSetSensorThresholds sample_constants valueless_backend 8
               (sample_request 0x02) sample_state)) = IPMI_CC_RESPONSE_ERROR"
    by blast
  from setThresholds_validates_before_writing [OF refl vconn vmap3 vsel(2) vlack] g3
  have c: "fst (fst (ipmiSenSetSensorThresholds sample_constants valueless_backend 8
               (sample_request 0x42) sample_state)) = IPMI_CC_INVALID_FIELD_REQUEST"
    by blast
  from a b c show ?thesis by blast
qed

subsection \<open>The deassertion latch\<close>

lemma deassertEntry_assign:
  "deassertEntry (deassertAssign tdm p n b) p' n' =
     (if p' = p \<and> n' = n then Some b else deassertEntry tdm p' n')"
  by (auto simp: deassertEntry_def deassertAssign_def Let_def split: option.splits)

lemma deassertEntry_touch:
  "deassertEntry (deassertTouch tdm p n) p' n' = deassertEntry tdm p' n'"
  by (auto simp: deassertEntry_def deassertTouch_def Let_def split: option.splits)

lemma thresholdChanged_entry:
  "deassertEntry (thresholdDeassertMap (thresholdChanged m st)) p n =
     (case findAssert (snd m) of
        None \<Rightarrow> deassertEntry (thresholdDeassertMap st) p n
      | Some (name, VarDouble d) \<Rightarrow> deassertEntry (thresholdDeassertMap st) p n
      | Some (name, VarBool b) \<Rightarrow>
          if p = fst m \<and> n = name then
            (if b then Some True
             else if deassertEntry (thresholdDeassertMap st) p n = None then None else Some False)
          else deassertEntry (thresholdDeassertMap st) p n)"
  by (auto simp: thresholdChanged_def Let_def deassertEntry_assign deassertEntry_touch
      split: option.splits bool_or_double.splits prod.splits)

lemma processNotifications_never_asserted:
  "deassertEntry (thresholdDeassertMap st) path nm = None \<Longrightarrow>
   \<forall>m \<in> set ms. \<not> assertsLatch m path nm \<Longrightarrow>
   deassertEntry (thresholdDeassertMap (processNotifications ms st)) path nm = None"
proof (induction ms arbitrary: st)
  case Nil
  then show ?case by simp
next
  case (Cons m ms)
  from Cons.prems have "deassertEntry (thresholdDeassertMap (thresholdChanged m st)) path nm = None"
    by (auto simp: thresholdChanged_entry assertsLatch_def
        split: option.splits bool_or_double.splits prod.splits)
  with Cons show ?case by simp
qed

lemma sample_findAssert:
  "findAssert (snd assert_notification) = Some (''CriticalAlarmHigh'', VarBool True)"
  "findAssert (snd deassert_notification) = Some (''CriticalAlarmHigh'', VarBool False)"
  by (simp_all add: findAssert_def assert_notification_def deassert_notification_def)

text \<open>
  C4: the latch of a (sensor path, alarm name) is what a reader of
  \<^verbatim>\<open>thresholdDeassertMap[path][name]\<close> sees. A notification whose Alarm property is true
  sets the latch of its path and that name to asserted, whatever it was. One whose Alarm
  property is false sets it to deasserted if the latch held a value, and leaves it without
  a value otherwise. Hence over any sequence of notifications a latch that starts without
  a value and is never asserted stays without a value: it is never seen as deasserted.
\<close>

theorem thresholdChanged_latch:
  "(findAssert (snd m) = Some (name, VarBool True) \<longrightarrow>
      deassertEntry (thresholdDeassertMap (thresholdChanged m st)) (fst m) name = Some True) \<and>
   (findAssert (snd m) = Some (name, VarBool False) \<longrightarrow>
      deassertEntry (thresholdDeassertMap (thresholdChanged m st)) (fst m) name =
        (if deassertEntry (thresholdDeassertMap st) (fst m) name = None then None
         else Some False)) \<and>
   (deassertEntry (thresholdDeassertMap st) path nm = None \<and>
    (\<forall>m' \<in> set ms. \<not> assertsLatch m' path nm) \<longrightarrow>
      deassertEntry (thresholdDeassertMap (processNotifications ms st)) path nm = None)"
  using processNotifications_never_asserted [of st path nm ms]
  by (simp add: thresholdChanged_entry)

text \<open>
  C4 on the sample platform: from the empty map, an assertion of the upper critical alarm
  latches true; a deassertion alone, or two of them, leave the latch without a value; a
  deassertion after the assertion latches false.
\<close>

theorem thresholdChanged_latch_witness:
  "deassertEntry (thresholdDeassertMap (thresholdChanged assert_notification sample_state))
     sample_path ''CriticalAlarmHigh'' = Some True \<and>
   deassertEntry (thresholdDeassertMap (thresholdChanged deassert_notification sample_state))
     sample_path ''CriticalAlarmHigh'' = None \<and>
   deassertEntry (thresholdDeassertMap
       (thresholdChanged deassert_notification (thresholdChanged assert_notification sample_state)))
     sample_path ''CriticalAlarmHigh'' = Some False \<and>
   deassertEntry (thresholdDeassertMap
       (processNotifications [deassert_notification, deassert_notification] sample_state))
     sample_path ''CriticalAlarmHigh'' = None"
proof -
  have p: "fst assert_notification = sample_path" "fst deassert_notification = sample_path"
    by (simp_all add: assert_notification_def deassert_notification_def)
  have e: "deassertEntry (thresholdDeassertMap sample_state) sample_path ''CriticalAlarmHigh'' = None"
    by (simp add: sample_state_def deassertEntry_def)
  have q: "\<forall>m' \<in> set [deassert_notification, deassert_notification].
      \<not> assertsLatch m' sample_path ''CriticalAlarmHigh''"
    by (simp add: assertsLatch_def sample_findAssert)
  note t = thresholdChanged_latch [where name = "''CriticalAlarmHigh''"
      and path = sample_path and nm = "''CriticalAlarmHigh''"
      and ms = "[deassert_notification, deassert_notification]"]
  from t [where m = assert_notification and st = sample_state] sample_findAssert p
  have a: "deassertEntry (thresholdDeassertMap (thresholdChanged assert_notification sample_state))
     sample_path ''CriticalAlarmHigh'' = Some True"
    by simp
  from t [where m = deassert_notification and st = sample_state] sample_findAssert p e q
  have b: "deassertEntry (thresholdDeassertMap (thresholdChanged deassert_notification sample_state))
     sample_path ''CriticalAlarmHigh'' = None"
    and d: "deassertEntry (thresholdDeassertMap
       (processNotifications [deassert_notification, deassert_notification] sample_state))
     sample_path ''CriticalAlarmHigh'' = None"
    by simp_all
  from t [where m = deassert_notification and st = "thresholdChanged assert_notification sample_state"]
    sample_findAssert p a
  have c: "deassertEntry (thresholdDeassertMap
       (thresholdChanged deassert_notification (thresholdChanged assert_notification sample_state)))
     sample_path ''CriticalAlarmHigh'' = Some False"
    by simp
  from a b c d show ?thesis by simp
qed

subsection \<open>The refresh timestamp of getSensorMap\<close>

text \<open>
  C5 as stated fails. In the stale state the sample connection was refreshed at second 1;
  at second 10 getSensorMap tries to refresh it, GetManagedObjects throws, the call
  returns false, and the stored timestamp is second 10, not second 1: the timestamp is
  written before the backend is called.
\<close>

theorem getSensorMap_timestamp_counterexample:
  "dbusGetManagedObjects failing_backend sample_connection = None \<and>
   fst (getSensorMap failing_backend sample_connection sample_path stale_state) = None \<and>
   updateTimeMap stale_state sample_connection = Some 1000000000 \<and>
   updateTimeMap (snd (getSensorMap failing_backend sample_connection sample_path stale_state))
     sample_connection = Some 10000000000"
  by (simp add: getSensorMap_def failing_backend_def sample_backend_def stale_state_def
      sample_state_def stale_elapsed sensorMapUpdatePeriod_def Let_def)

text \<open>
  C5, amended: getSensorMap sets the timestamp of the connection to the current time
  whenever it attempts an enumeration, that is whenever more than sensorMapUpdatePeriod
  seconds have passed since the stored timestamp (or since time 0 when none is stored),
  whether the enumeration then succeeds or fails; otherwise it leaves the timestamps
  unchanged. A failed enumeration leaves the cached trees unchanged.
\<close>

theorem getSensorMap_timestamp:
  "updateTimeMap (snd (getSensorMap be c p st)) =
     (if duration_cast_seconds
           (steady_clock_now be - (case updateTimeMap st c of None \<Rightarrow> 0 | Some t \<Rightarrow> t))
         > sensorMapUpdatePeriod
      then (updateTimeMap st)(c \<mapsto> steady_clock_now be) else updateTimeMap st) \<and>
   (dbusGetManagedObjects be c = None \<longrightarrow>
      SensorCache (snd (getSensorMap be c p st)) = SensorCache st)"
  by (simp add: getSensorMap_def Let_def split: option.splits)

text \<open>
  C5, amended, on the sample platform: the failed refresh of the stale state stores the
  current time for the connection and keeps the cache.
\<close>

theorem getSensorMap_timestamp_witness:
  "updateTimeMap (snd (getSensorMap failing_backend sample_connection sample_path stale_state))
     = (updateTimeMap stale_state)(sample_connection \<mapsto> 10000000000) \<and>
   SensorCache (snd (getSensorMap failing_backend sample_connection sample_path stale_state))
     = SensorCache stale_state"
proof -
  have n: "steady_clock_now failing_backend = 10000000000"
    "dbusGetManagedObjects failing_backend sample_connection = None"
    by (simp_all add: failing_backend_def sample_backend_def)
  have u: "updateTimeMap stale_state sample_connection = Some 1000000000"
    by (simp add: stale_state_def sample_state_def)
  from getSensorMap_timestamp [of failing_backend sample_connection sample_path stale_state]
  show ?thesis
    by (simp add: n u stale_elapsed sensorMapUpdatePeriod_def)
qed

subsection \<open>The window of bytes read from a record\<close>

lemma clampBytesToRead_within:
  assumes "unat offset \<le> recordSize" and "recordSize < SIZE_T_MOD"
  shows "unat offset + unat (clampBytesToRead recordSize offset bytesToRead) \<le> recordSize"
proof (cases "recordSize < unat offset + unat bytesToRead")
  case True
  have o: "unat offset < SIZE_T_MOD"
    using assms by simp
  have "size_t_sub recordSize (unat offset) = (recordSize - unat offset + SIZE_T_MOD) mod SIZE_T_MOD"
    using assms o by (simp add: size_t_sub_def)
  also have "\<dots> = (recordSize - unat offset) mod SIZE_T_MOD"
    by (rule mod_add_self2)
  also have "\<dots> = recordSize - unat offset"
    using assms by (intro mod_less) arith
  finally have s: "size_t_sub recordSize (unat offset) = recordSize - unat offset" .
  have "unat (of_nat (recordSize - unat offset) :: u8) \<le> recordSize - unat offset"
    by (simp add: unat_of_nat)
  with True assms show ?thesis
    by (simp add: clampBytesToRead_def s)
next
  case False
  then show ?thesis
    by (simp add: clampBytesToRead_def)
qed

lemma clampBytesToRead_inside:
  assumes "unat offset \<le> recordSize"
  shows "unat offset + unat (clampBytesToRead recordSize offset bytesToRead) \<le> recordSize"
proof (cases "recordSize < SIZE_T_MOD")
  case True
  with assms show ?thesis by (rule clampBytesToRead_within)
next
  case False
  have byte: "unat x < 256" for x :: u8
    using unsigned_less [of x, where 'a = nat] by simp
  have "unat offset < 256" "unat (clampBytesToRead recordSize offset bytesToRead) < 256"
    by (rule byte)+
  moreover from False have "512 \<le> recordSize"
    by (simp add: SIZE_T_MOD_def)
  ultimately show ?thesis by arith
qed

lemma sdrFruRecord_in_bounds:
  "sdrFruRecord hc be sensorCount fruCount recordID nextRecordId offset n \<noteq> OutOfBoundsRead a b"
proof -
  obtain ret data where g: "getFruSdrs be (size_t_sub (unat recordID) sensorCount) = (ret, data)"
    by (cases "getFruSdrs be (size_t_sub (unat recordID) sensorCount)") auto
  show ?thesis
    using clampBytesToRead_inside [of offset "sizeof_SensorDataFruRecord hc" n]
    by (simp add: sdrFruRecord_def Let_def g readWindow_def)
qed

lemma readWindow_beyond:
  "recordSize < unat offset \<Longrightarrow>
   readWindow recordSize bs offset n nextRecordId = OutOfBoundsRead (unat offset) (unat n)"
  by (simp add: readWindow_def)

lemma sdrFullRecord_in_bounds:
  assumes "unat offset \<le> sizeof_SensorDataFullRecord hc"
  shows "fst (sdrFullRecord hc be recordID nextRecordId offset n st) \<noteq> OutOfBoundsRead a b"
proof (cases "sdrFindSensor (sensorTree st) recordID")
  case None
  then show ?thesis by (simp add: sdrFullRecord_def)
next
  case (Some cp)
  obtain c p where cp: "cp = (c, p)" by (cases cp) auto
  obtain m st1 where g: "getSensorMap be c p st = (m, st1)"
    by (cases "getSensorMap be c p st") auto
  show ?thesis
  proof (cases m)
    case None
    with Some cp g show ?thesis by (simp add: sdrFullRecord_def)
  next
    case m: (Some sensorMap)
    show ?thesis
    proof (cases "sdrAssembleRecord hc be recordID p sensorMap")
      case None
      with Some cp g m show ?thesis by (simp add: sdrFullRecord_def)
    next
      case r: (Some sdr)
      with Some cp g m show ?thesis
        using clampBytesToRead_inside [OF assms, of n]
        by (simp add: sdrFullRecord_def Let_def readWindow_def)
    qed
  qed
qed

lemma getSDRRecord_in_bounds:
  assumes "unat offset \<le> sizeof_SensorDataFullRecord hc \<or>
           length (sensorTree st)
             \<le> unat (resolveRecordID (lastRecordOf (length (sensorTree st)) fruCount) recordID)"
  shows "fst (getSDRRecord hc be fruCount recordID offset n st) \<noteq> OutOfBoundsRead a b"
  using assms
  by (auto simp: getSDRRecord_def Let_def sdrFruRecord_in_bounds sdrFullRecord_in_bounds)

lemma sdrFullRecord_beyond:
  assumes "sizeof_SensorDataFullRecord hc < unat offset"
  shows "fst (sdrFullRecord hc be recordID nextRecordId offset n st) \<noteq> Success nx payload"
proof (cases "sdrFindSensor (sensorTree st) recordID")
  case None
  then show ?thesis by (simp add: sdrFullRecord_def)
next
  case (Some cp)
  obtain c p where cp: "cp = (c, p)" by (cases cp) auto
  obtain m st1 where g: "getSensorMap be c p st = (m, st1)"
    by (cases "getSensorMap be c p st") auto
  show ?thesis
  proof (cases m)
    case None
    with Some cp g show ?thesis by (simp add: sdrFullRecord_def)
  next
    case m: (Some sensorMap)
    show ?thesis
    proof (cases "sdrAssembleRecord hc be recordID p sensorMap")
      case None
      with Some cp g m show ?thesis by (simp add: sdrFullRecord_def)
    next
      case r: (Some sdr)
      with Some cp g m show ?thesis
        by (simp add: sdrFullRecord_def Let_def readWindow_beyond [OF assms])
    qed
  qed
qed

text \<open>
  The lemmas above locate the defect: the FRU branch never reads outside the record; the
  live-sensor branch stays inside it for an offset up to the record size, and for every
  larger offset it returns no response at all where it should have refused.
\<close>

text \<open>
  C6: the bound does not hold for live-sensor records. On the sample platform a full
  record has 64 bytes. A read of record 0 at offset 200 for 10 bytes, under the current
  reservation, is not refused: \<^verbatim>\<open>sizeof(record) - offset\<close> wraps, the clamp leaves 120
  bytes to read, and the handler copies bytes 200 to 319 of a 64-byte structure. The
  branch for FRU records refuses the same offset with invalid-field-request.
\<close>

theorem getSDR_full_record_window_overrun:
  "sizeof_SensorDataFullRecord sample_constants = 64 \<and>
   sdrReservationID reserved_state = 1 \<and>
   fst (ipmiStorageGetSDR sample_constants sample_backend 1 0 200 10 reserved_state) =
     OutOfBoundsRead 200 120 \<and>
   fst (ipmiStorageGetSDR sample_constants sample_backend 1 1 200 10 reserved_state) =
     Response IPMI_CC_INVALID_FIELD_REQUEST"
  using sample_overrun sample_fru_guard
  by (simp add: sample_constants_def reserved_state_def)

subsection \<open>The last record and the record IDs beyond it\<close>

lemma readWindow_next:
  "readWindow sz bs offset n nextRecordId = Success nx payload \<Longrightarrow> nx = nextRecordId"
  by (simp add: readWindow_def split: if_splits)

lemma sdrFruRecord_next:
  assumes "sdrFruRecord hc be sc fc recordID nextRecordId offset n = Success nx payload"
  shows "nx = nextRecordId"
proof -
  obtain ret data where g: "getFruSdrs be (size_t_sub (unat recordID) sc) = (ret, data)"
    by (cases "getFruSdrs be (size_t_sub (unat recordID) sc)") auto
  from assms show ?thesis
    by (simp add: sdrFruRecord_def Let_def g split: if_splits) (rule readWindow_next)
qed

lemma sdrFullRecord_next:
  assumes "fst (sdrFullRecord hc be recordID nextRecordId offset n st) = Success nx payload"
  shows "nx = nextRecordId"
proof (cases "sdrFindSensor (sensorTree st) recordID")
  case None
  with assms show ?thesis by (simp add: sdrFullRecord_def)
next
  case (Some cp)
  obtain c p where cp: "cp = (c, p)" by (cases cp) auto
  obtain m st1 where g: "getSensorMap be c p st = (m, st1)"
    by (cases "getSensorMap be c p st") auto
  show ?thesis
  proof (cases m)
    case None
    with assms Some cp g show ?thesis by (simp add: sdrFullRecord_def)
  next
    case m: (Some sensorMap)
    show ?thesis
    proof (cases "sdrAssembleRecord hc be recordID p sensorMap")
      case None
      with assms Some cp g m show ?thesis by (simp add: sdrFullRecord_def)
    next
      case r: (Some sdr)
      with assms Some cp g m show ?thesis
        by (simp add: sdrFullRecord_def Let_def) (rule readWindow_next)
    qed
  qed
qed

lemma resolveRecordID_last: "resolveRecordID (unat r) r = r" "resolveRecordID (unat r) 0xFFFF = r"
  by (simp_all add: resolveRecordID_def)

lemma resolveRecordID_other: "recordID \<noteq> 0xFFFF \<Longrightarrow> resolveRecordID k recordID = recordID"
  by (simp add: resolveRecordID_def)

lemma getSDRRecord_sentinel:
  assumes "lastRecordOf (length (sensorTree st)) fruCount = unat r"
  shows "getSDRRecord hc be fruCount 0xFFFF offset n st = getSDRRecord hc be fruCount r offset n st"
  using assms by (simp add: getSDRRecord_def Let_def resolveRecordID_last)

lemma getSDRRecord_last_next:
  assumes "lastRecordOf (length (sensorTree st)) fruCount = unat r"
    and "fst (getSDRRecord hc be fruCount r offset n st) = Success nx payload"
  shows "nx = 0xFFFF"
proof (cases "unat r \<ge> length (sensorTree st)")
  case True
  with assms have "sdrFruRecord hc be (length (sensorTree st)) fruCount r 0xFFFF offset n
      = Success nx payload"
    by (simp add: getSDRRecord_def Let_def resolveRecordID_last)
  then show ?thesis by (rule sdrFruRecord_next)
next
  case False
  with assms have "fst (sdrFullRecord hc be r 0xFFFF offset n st) = Success nx payload"
    by (simp add: getSDRRecord_def Let_def resolveRecordID_last)
  then show ?thesis by (rule sdrFullRecord_next)
qed

lemma getSDRRecord_beyond:
  assumes "recordID \<noteq> 0xFFFF"
    and "unat recordID > lastRecordOf (length (sensorTree st)) fruCount"
  shows "getSDRRecord hc be fruCount recordID offset n st = (Response IPMI_CC_INVALID_FIELD_REQUEST, st)"
  using assms by (simp add: getSDRRecord_def Let_def resolveRecordID_other)

lemma getSDR_passes:
  assumes "offset = 0 \<or> (sdrReservationID st \<noteq> 0 \<and> reservationID = sdrReservationID st)"
    and "loadSensorTree be st = (True, st1)"
    and "getFruSdrCount be = (IPMI_CC_OK, fruCount)"
  shows "ipmiStorageGetSDR hc be reservationID recordID offset n st =
           getSDRRecord hc be (fruCount mod SIZE_T_MOD) recordID offset n st1"
  using assms by (auto simp: ipmiStorageGetSDR_def)

lemma getSDR_rejects:
  assumes "\<not> (offset = 0 \<or> (sdrReservationID st \<noteq> 0 \<and> reservationID = sdrReservationID st))"
  shows "ipmiStorageGetSDR hc be reservationID recordID offset n st =
           (Response IPMI_CC_INVALID_RESERVATION_ID, st)"
  using assms by (auto simp: ipmiStorageGetSDR_def)

text \<open>
  C7 as stated fails in its last part. The sample platform has three records, so 5 is
  beyond the last index 2; read at offset 1 with no reservation, record ID 5 is answered
  with invalid-reservation-id, not with invalid-field-request: the reservation is checked
  before the record ID.
\<close>

theorem getSDR_beyond_last_counterexample:
  "lastRecordOf (length (sensorTree sample_state)) 2 = 2 \<and>
   unat (5 :: u16) > 2 \<and>
   fst (ipmiStorageGetSDR sample_constants sample_backend 0 5 1 5 sample_state) =
     Response IPMI_CC_INVALID_RESERVATION_ID \<and>
   IPMI_CC_INVALID_RESERVATION_ID \<noteq> IPMI_CC_INVALID_FIELD_REQUEST"
proof -
  have "sensorTree sample_state = sample_tree"
    by (simp add: sample_state_def)
  with sample_lastRecord have "lastRecordOf (length (sensorTree sample_state)) 2 = 2"
    by simp
  moreover have "fst (ipmiStorageGetSDR sample_constants sample_backend 0 5 1 5 sample_state) =
     Response IPMI_CC_INVALID_RESERVATION_ID"
    by (simp add: ipmiStorageGetSDR_def)
  ultimately show ?thesis
    by (simp add: cc_defs)
qed

lemma getSensorMap_fruCount:
  "getSensorMap (be\<lparr>getFruSdrCount := x\<rparr>) c p st = getSensorMap be c p st"
  by (simp add: getSensorMap_def cong: if_cong)

lemma getIPMIThresholds_fruCount:
  "getIPMIThresholds (be\<lparr>getFruSdrCount := x\<rparr>) m = getIPMIThresholds be m"
  by (simp add: getIPMIThresholds_def getSensorMaxMin_def scaledProperty_def
      cong: if_cong option.case_cong prod.case_cong)

lemma sdrAssembleRecord_fruCount:
  "sdrAssembleRecord hc (be\<lparr>getFruSdrCount := x\<rparr>) recordID p m = sdrAssembleRecord hc be recordID p m"
  by (simp add: sdrAssembleRecord_def getIPMIThresholds_fruCount sdrSensorMaxMin_def
      sdrRecordIdentity_def cong: if_cong option.case_cong prod.case_cong)

lemma sdrFullRecord_fruCount:
  "sdrFullRecord hc (be\<lparr>getFruSdrCount := x\<rparr>) recordID nx offset n st =
   sdrFullRecord hc be recordID nx offset n st"
  by (simp add: sdrFullRecord_def getSensorMap_fruCount sdrAssembleRecord_fruCount
      cong: option.case_cong prod.case_cong)

lemma sensor_only_getSDR:
  "fst (ipmiStorageGetSDR sample_constants sensor_only_backend 0 recordID 0 5 sample_state) =
     (if recordID = 0xFFFF \<or> recordID = 0 then Success 0xFFFF [0, 0, 0x51, 0x01, 59]
      else Response IPMI_CC_INVALID_FIELD_REQUEST)"
proof -
  have t: "sensorTree sample_state = sample_tree" "updateTimeMap sample_state sample_connection = None"
    by (simp_all add: sample_state_def)
  have l: "length sample_tree = Suc 0" by (simp add: sample_tree_def)
  have ld: "loadSensorTree sensor_only_backend sample_state = (True, sample_state)"
    by (simp add: loadSensorTree_def t(1) sample_tree_def)
  have fc: "getFruSdrCount sensor_only_backend = (IPMI_CC_OK, 0)"
    by (simp add: sensor_only_backend_def)
  have last: "lastRecordOf (Suc 0) 0 = 0"
    by (simp add: lastRecordOf_def size_t_add_def size_t_sub_def SIZE_T_MOD_def)
  have w: "fst (sdrFullRecord sample_constants sensor_only_backend 0 0xFFFF 0 5 sample_state) =
      Success 0xFFFF [0, 0, 0x51, 0x01, 59]"
    unfolding sensor_only_backend_def sdrFullRecord_fruCount
    by (simp add: sample_fullRecord [OF t] clampBytesToRead_def readWindow_def
        sample_fullRecordBytes_def sample_record_def)
  have nz: "unat recordID = 0 \<longleftrightarrow> recordID = 0"
    by (simp add: unat_eq_0)
  show ?thesis
    by (simp add: ipmiStorageGetSDR_def ld fc getSDRRecord_def Let_def t(1) l last
        resolveRecordID_def w nz)
qed

text \<open>
  C7, amended: let the sensor tree be available and the FRU count be obtained, with at
  least one and at most 65536 records in all. For a read whose window lies inside the
  last record (the offset is not beyond the size of a full record, or the last record is
  an FRU record, where the handler refuses such an offset), a call with record ID 0xFFFF
  gives the same result (completion code, next record ID, payload, state) as the call
  with the last valid index and the same reservation, offset and length, and reads
  nothing outside the record. Where a call with record ID 0xFFFF succeeds, its next
  record ID is 0xFFFF. A record ID other than 0xFFFF beyond the last valid index is
  answered with invalid-field-request provided the call passes the reservation check
  (offset 0, or a reservation exists and the supplied ID is the current one).
\<close>

theorem getSDR_last_record_sentinel:
  assumes tree: "loadSensorTree be st = (True, st1)"
    and fru: "getFruSdrCount be = (IPMI_CC_OK, fruCount)"
    and nonempty: "0 < length (sensorTree st1) + fruCount"
    and small: "length (sensorTree st1) + fruCount \<le> 65536"
  shows "(unat offset \<le> sizeof_SensorDataFullRecord hc \<or> 0 < fruCount \<longrightarrow>
            ipmiStorageGetSDR hc be reservationID 0xFFFF offset bytesToRead st =
              ipmiStorageGetSDR hc be reservationID
                (of_nat (length (sensorTree st1) + fruCount - 1)) offset bytesToRead st \<and>
            (\<forall>a b. fst (ipmiStorageGetSDR hc be reservationID 0xFFFF offset bytesToRead st)
                      \<noteq> OutOfBoundsRead a b)) \<and>
         (\<forall>nextRecordId payload.
            fst (ipmiStorageGetSDR hc be reservationID 0xFFFF offset bytesToRead st)
              = Success nextRecordId payload \<longrightarrow> nextRecordId = 0xFFFF) \<and>
         (\<forall>recordID.
            recordID \<noteq> 0xFFFF \<and> unat recordID > length (sensorTree st1) + fruCount - 1 \<and>
            (offset = 0 \<or> (sdrReservationID st \<noteq> 0 \<and> reservationID = sdrReservationID st)) \<longrightarrow>
            ipmiStorageGetSDR hc be reservationID recordID offset bytesToRead st =
              (Response IPMI_CC_INVALID_FIELD_REQUEST, st1))"
proof -
  define r :: u16 where "r = of_nat (length (sensorTree st1) + fruCount - 1)"
  have u: "unat r = length (sensorTree st1) + fruCount - 1"
    unfolding r_def using nonempty small by (intro unat_of_nat_u16) simp
  have "fruCount < SIZE_T_MOD"
    using small by (simp add: SIZE_T_MOD_def)
  then have f: "fruCount mod SIZE_T_MOD = fruCount"
    by (rule mod_less)
  have last: "lastRecordOf (length (sensorTree st1)) fruCount = unat r"
    unfolding u using nonempty small by (rule lastRecordOf_small)
  show ?thesis
  proof (cases "offset = 0 \<or> (sdrReservationID st \<noteq> 0 \<and> reservationID = sdrReservationID st)")
    case True
    note pass = getSDR_passes [OF True tree fru, of hc _ bytesToRead, unfolded f]
    have p1: "ipmiStorageGetSDR hc be reservationID 0xFFFF offset bytesToRead st =
           ipmiStorageGetSDR hc be reservationID r offset bytesToRead st"
      unfolding pass by (rule getSDRRecord_sentinel [OF last])
    have p1b: "fst (ipmiStorageGetSDR hc be reservationID 0xFFFF offset bytesToRead st)
        \<noteq> OutOfBoundsRead a b"
      if w: "unat offset \<le> sizeof_SensorDataFullRecord hc \<or> 0 < fruCount" for a b
    proof -
      from w u have "unat offset \<le> sizeof_SensorDataFullRecord hc \<or>
          length (sensorTree st1) \<le> unat r"
        by arith
      then have "unat offset \<le> sizeof_SensorDataFullRecord hc \<or> length (sensorTree st1)
          \<le> unat (resolveRecordID (lastRecordOf (length (sensorTree st1)) fruCount) 0xFFFF)"
        unfolding last resolveRecordID_last .
      then show ?thesis
        unfolding pass by (rule getSDRRecord_in_bounds)
    qed
    have p2: "nx = 0xFFFF"
      if "fst (ipmiStorageGetSDR hc be reservationID 0xFFFF offset bytesToRead st) = Success nx payload"
      for nx payload
      using that unfolding p1 unfolding pass by (rule getSDRRecord_last_next [OF last])
    have p3: "ipmiStorageGetSDR hc be reservationID recordID offset bytesToRead st =
              (Response IPMI_CC_INVALID_FIELD_REQUEST, st1)"
      if "recordID \<noteq> 0xFFFF" "unat recordID > length (sensorTree st1) + fruCount - 1"
      for recordID
      unfolding pass using that last u by (intro getSDRRecord_beyond) simp_all
    from p1 p1b p2 p3 show ?thesis
      unfolding r_def by blast
  next
    case False
    note rej = getSDR_rejects [OF False, of hc be _ bytesToRead]
    from False show ?thesis
      unfolding rej by auto
  qed
qed

text \<open>
  C7, amended, on the sample platform (one sensor, two FRU records): record ID 0xFFFF
  reads the second FRU record as record ID 2 does, with next record ID 0xFFFF, and
  record ID 5 at offset 0 is answered with invalid-field-request. With no FRU record,
  record ID 0xFFFF reads the record of the sample sensor as record ID 0 does.
\<close>

theorem getSDR_last_record_sentinel_witness:
  "ipmiStorageGetSDR sample_constants sample_backend 0 0xFFFF 0 5 sample_state =
     ipmiStorageGetSDR sample_constants sample_backend 0 2 0 5 sample_state \<and>
   ipmiStorageGetSDR sample_constants sample_backend 0 0xFFFF 0 5 sample_state =
     (Success 0xFFFF [2, 0, 0x51, 0x11, 11], sample_state) \<and>
   ipmiStorageGetSDR sample_constants sample_backend 0 5 0 5 sample_state =
     (Response IPMI_CC_INVALID_FIELD_REQUEST, sample_state) \<and>
   ipmiStorageGetSDR sample_constants sensor_only_backend 0 0xFFFF 0 5 sample_state =
     ipmiStorageGetSDR sample_constants sensor_only_backend 0 0 0 5 sample_state \<and>
   fst (ipmiStorageGetSDR sample_constants sensor_only_backend 0 0xFFFF 0 5 sample_state) =
     Success 0xFFFF [0, 0, 0x51, 0x01, 59]"
proof -
  have t: "sensorTree sample_state = sample_tree"
    by (simp add: sample_state_def)
  have l: "length (sensorTree sample_state) = 1"
    by (simp add: sample_state_def sample_tree_def)
  have n: "0 < length (sensorTree sample_state) + 2" "length (sensorTree sample_state) + 2 \<le> 65536"
    by (simp_all add: l)
  have z: "unat (0 :: u8) \<le> sizeof_SensorDataFullRecord sample_constants"
    by simp
  note s = getSDR_last_record_sentinel [OF sample_load [OF t] sample_fruCount n,
      where hc = sample_constants and reservationID = 0 and offset = 0 and bytesToRead = 5]
  have two: "ipmiStorageGetSDR sample_constants sample_backend 0 2 0 5 sample_state =
     (Success 0xFFFF [2, 0, 0x51, 0x11, 11], sample_state)"
    using sample_getSDR [OF t, where offset = 0 and reservationID = 0 and recordID = 2 and n = 5]
    by (simp add: sample_fru [OF t])
  from s z have a: "ipmiStorageGetSDR sample_constants sample_backend 0 0xFFFF 0 5 sample_state =
     ipmiStorageGetSDR sample_constants sample_backend 0 2 0 5 sample_state"
    by (simp add: l)
  from s have "(5 :: u16) \<noteq> 0xFFFF \<and> unat (5 :: u16) > length (sensorTree sample_state) + 2 - 1 \<longrightarrow>
      ipmiStorageGetSDR sample_constants sample_backend 0 5 0 5 sample_state =
        (Response IPMI_CC_INVALID_FIELD_REQUEST, sample_state)"
    by blast
  then have b: "ipmiStorageGetSDR sample_constants sample_backend 0 5 0 5 sample_state =
     (Response IPMI_CC_INVALID_FIELD_REQUEST, sample_state)"
    by (simp add: l)
  have ld: "loadSensorTree sensor_only_backend sample_state = (True, sample_state)"
    by (simp add: loadSensorTree_def t sample_tree_def)
  have fc: "getFruSdrCount sensor_only_backend = (IPMI_CC_OK, 0)"
    by (simp add: sensor_only_backend_def)
  have n0: "0 < length (sensorTree sample_state) + 0" "length (sensorTree sample_state) + 0 \<le> 65536"
    by (simp_all add: l)
  note s0 = getSDR_last_record_sentinel [OF ld fc n0,
      where hc = sample_constants and reservationID = 0 and offset = 0 and bytesToRead = 5]
  from s0 z have c: "ipmiStorageGetSDR sample_constants sensor_only_backend 0 0xFFFF 0 5 sample_state =
     ipmiStorageGetSDR sample_constants sensor_only_backend 0 0 0 5 sample_state"
    by (simp add: l)
  have d: "fst (ipmiStorageGetSDR sample_constants sensor_only_backend 0 0xFFFF 0 5 sample_state) =
     Success 0xFFFF [0, 0, 0x51, 0x01, 59]"
    by (simp add: sensor_only_getSDR)
  from a b c d two show ?thesis
    by simp
qed

subsection \<open>Reservation IDs\<close>

text \<open>
  C8: with a request of the right size (no request bytes) ipmiStorageReserveSDR succeeds
  with a two-byte response; the reservation ID in the response is the new value of the
  counter, is never 0, and differs from the ID that the next call returns.
\<close>

theorem reserve_never_zero_never_repeats:
  "fst (fst (ipmiStorageReserveSDR 0 st)) = IPMI_CC_OK \<and>
   fst (snd (fst (ipmiStorageReserveSDR 0 st))) = 2 \<and>
   length (snd (snd (fst (ipmiStorageReserveSDR 0 st)))) = 2 \<and>
   reservationOfResponse (snd (snd (fst (ipmiStorageReserveSDR 0 st))))
     = sdrReservationID (snd (ipmiStorageReserveSDR 0 st)) \<and>
   reservationOfResponse (snd (snd (fst (ipmiStorageReserveSDR 0 st)))) \<noteq> 0 \<and>
   reservationOfResponse (snd (snd (fst (ipmiStorageReserveSDR 0 (snd (ipmiStorageReserveSDR 0 st))))))
     \<noteq> reservationOfResponse (snd (snd (fst (ipmiStorageReserveSDR 0 st))))"
proof -
  let ?r1 = "ipmiStorageReserveSDR 0 st"
  have resp: "reservationOfResponse (snd (snd (fst (ipmiStorageReserveSDR 0 s))))
      = sdrReservationID (snd (ipmiStorageReserveSDR 0 s))" for s
    by (simp add: ipmiStorageReserveSDR_def reservationOfResponse_def Let_def
        reserve_byte_roundtrip)
  have nz: "sdrReservationID (snd (ipmiStorageReserveSDR 0 s)) \<noteq> 0" for s
    by (simp add: ipmiStorageReserveSDR_def Let_def)
  have step: "sdrReservationID (snd (ipmiStorageReserveSDR 0 s)) \<noteq> sdrReservationID s"
    if "sdrReservationID s \<noteq> 0" for s
  proof (cases "sdrReservationID s + 1 = 0")
    case True
    then have "sdrReservationID (snd (ipmiStorageReserveSDR 0 s)) = 1"
      by (simp add: ipmiStorageReserveSDR_def Let_def)
    moreover from True have "sdrReservationID s \<noteq> 1"
      by auto
    ultimately show ?thesis by simp
  next
    case False
    then show ?thesis
      by (simp add: ipmiStorageReserveSDR_def Let_def)
  qed
  have "fst (fst ?r1) = IPMI_CC_OK" "fst (snd (fst ?r1)) = 2" "length (snd (snd (fst ?r1))) = 2"
    by (simp_all add: ipmiStorageReserveSDR_def Let_def)
  moreover note resp [of st] nz [of st] step [OF nz [of st]]
  ultimately show ?thesis
    by (simp add: resp)
qed

subsection \<open>The mask checks of ipmiSenSetSensorThresholds\<close>

text \<open>
  C9: for a request of length 8, a mask with one of the two upper bits, the
  lower-non-recoverable bit or the upper-non-recoverable bit set is answered with
  invalid-field-request, and a mask of 0 with success; in both cases the state is returned
  as it was, so no sensor was looked up and no backend call was issued, whatever the
  backend.
\<close>

theorem setThresholds_mask_gate:
  "(req_mask req AND 0xC0 \<noteq> 0 \<or>
    req_mask req AND ReqEnable_setLowerNonRecoverable hc \<noteq> 0 \<or>
    req_mask req AND ReqEnable_setUpperNonRecoverable hc \<noteq> 0 \<longrightarrow>
      ipmiSenSetSensorThresholds hc be 8 req st = ((IPMI_CC_INVALID_FIELD_REQUEST, 0), st)) \<and>
   (req_mask req = 0 \<longrightarrow>
      ipmiSenSetSensorThresholds hc be 8 req st = ((IPMI_CC_OK, 0), st))"
  by (simp add: ipmiSenSetSensorThresholds_def)

text \<open>
  C9 on the sample platform: the masks 0x40, 0x80, 0x04 and 0x20 are refused and the
  mask 0 succeeds, each with the state unchanged.
\<close>

theorem setThresholds_mask_gate_witness:
  "ipmiSenSetSensorThresholds sample_constants sample_backend 8 (sample_request 0x40) sample_state
     = ((IPMI_CC_INVALID_FIELD_REQUEST, 0), sample_state) \<and>
   ipmiSenSetSensorThresholds sample_constants sample_backend 8 (sample_request 0x80) sample_state
     = ((IPMI_CC_INVALID_FIELD_REQUEST, 0), sample_state) \<and>
   ipmiSenSetSensorThresholds sample_constants sample_backend 8 (sample_request 0x04) sample_state
     = ((IPMI_CC_INVALID_FIELD_REQUEST, 0), sample_state) \<and>
   ipmiSenSetSensorThresholds sample_constants sample_backend 8 (sample_request 0x20) sample_state
     = ((IPMI_CC_INVALID_FIELD_REQUEST, 0), sample_state) \<and>
   ipmiSenSetSensorThresholds sample_constants sample_backend 8 (sample_request 0) sample_state
     = ((IPMI_CC_OK, 0), sample_state)"
proof -
  have m: "req_mask (sample_request x) = x" for x
    by (simp add: sample_request_def)
  have c: "ReqEnable_setLowerNonRecoverable sample_constants = 0x04"
    "ReqEnable_setUpperNonRecoverable sample_constants = 0x20"
    by (simp_all add: sample_constants_def)
  note g = setThresholds_mask_gate [where hc = sample_constants and be = sample_backend
      and st = sample_state]
  from g [where req = "sample_request 0x40"] g [where req = "sample_request 0x80"]
    g [where req = "sample_request 0x04"] g [where req = "sample_request 0x20"]
    g [where req = "sample_request 0"]
  show ?thesis
    by (simp add: m c)
qed

subsection \<open>The default range of a sensor\<close>

text \<open>
  C10: when the value interface of a sensor has no MaxValue, getSensorMaxMin (the range
  of the reading and threshold handlers) gives the maximum 127 and the SDR assembler
  gives 128; when it has no MinValue, they give the minima -128 and -127. So the two
  ranges differ as soon as one of the properties is absent, and with both absent the
  linearization parameters of the two paths are getSensorAttributes of (127, -128) and
  of (128, -127): they differ whenever getSensorAttributes tells these ranges apart.
\<close>

theorem range_defaults_differ:
  "(sensorObject ''MaxValue'' = None \<longrightarrow>
      fst (getSensorMaxMin be sensorObject) = 127 \<and> fst (sdrSensorMaxMin be sensorObject) = 128) \<and>
   (sensorObject ''MinValue'' = None \<longrightarrow>
      snd (getSensorMaxMin be sensorObject) = - 128 \<and> snd (sdrSensorMaxMin be sensorObject) = - 127) \<and>
   (sensorObject ''MaxValue'' = None \<or> sensorObject ''MinValue'' = None \<longrightarrow>
      getSensorMaxMin be sensorObject \<noteq> sdrSensorMaxMin be sensorObject) \<and>
   (sensorObject ''MaxValue'' = None \<and> sensorObject ''MinValue'' = None \<longrightarrow>
      getSensorAttributes be (fst (getSensorMaxMin be sensorObject))
        (snd (getSensorMaxMin be sensorObject)) = getSensorAttributes be 127 (- 128) \<and>
      getSensorAttributes be (fst (sdrSensorMaxMin be sensorObject))
        (snd (sdrSensorMaxMin be sensorObject)) = getSensorAttributes be 128 (- 127))"
  by (auto simp: getSensorMaxMin_def sdrSensorMaxMin_def Let_def split: option.splits)

text \<open>
  C10 on the sample platform: the sample sensor has neither property; the two paths use
  the ranges (127, -128) and (128, -127), and the sample getSensorAttributes derives a
  different B from them.
\<close>

theorem range_defaults_differ_witness:
  "getSensorMaxMin sample_backend [''Value'' \<mapsto> VDouble 42] = (127, - 128) \<and>
   sdrSensorMaxMin sample_backend [''Value'' \<mapsto> VDouble 42] = (128, - 127) \<and>
   getSensorAttributes sample_backend
     (fst (getSensorMaxMin sample_backend [''Value'' \<mapsto> VDouble 42]))
     (snd (getSensorMaxMin sample_backend [''Value'' \<mapsto> VDouble 42]))
     = Some (1, - 2, 127, 3, True) \<and>
   getSensorAttributes sample_backend
     (fst (sdrSensorMaxMin sample_backend [''Value'' \<mapsto> VDouble 42]))
     (snd (sdrSensorMaxMin sample_backend [''Value'' \<mapsto> VDouble 42]))
     = Some (1, - 2, 128, 3, True)"
proof -
  have a: "[''Value'' \<mapsto> VDouble 42] ''MaxValue'' = None"
    "[''Value'' \<mapsto> VDouble 42] ''MinValue'' = None"
    by simp_all
  from range_defaults_differ [of "[''Value'' \<mapsto> VDouble 42]" sample_backend] a
  have "fst (getSensorMaxMin sample_backend [''Value'' \<mapsto> VDouble 42]) = 127"
    "snd (getSensorMaxMin sample_backend [''Value'' \<mapsto> VDouble 42]) = - 128"
    "fst (sdrSensorMaxMin sample_backend [''Value'' \<mapsto> VDouble 42]) = 128"
    "snd (sdrSensorMaxMin sample_backend [''Value'' \<mapsto> VDouble 42]) = - 127"
    by simp_all
  then show ?thesis
    by (simp add: prod_eq_iff sample_attributes)
qed

end
